theory Spec2Isabelle
  imports Main "HOL-Library.Word"
begin

unbundle bit_operations_syntax

section \<open>The machine: memory-mapped registers, hardware reads, access log\<close>

text \<open>
  The driver \<^verbatim>\<open>msp430/msp430_spi.c\<close> talks to the MSP430 only through memory-mapped
  registers. Every register it names is a constructor of \<open>reg\<close>. The 16-bit USI
  shift register \<^verbatim>\<open>USISR\<close> is the byte pair \<open>USISRH\<close>, \<open>USISRL\<close> (the source uses both
  \<^verbatim>\<open>USISR\<close> and its low byte \<^verbatim>\<open>USISRL\<close>).
\<close>

type_synonym u8 = "8 word"
type_synonym u16 = "16 word"

datatype reg =
    P1IN | P1OUT | P1DIR | P1REN | P1SEL | P1SEL2
  | P2IN | P2OUT | P2DIR | P2REN | P2SEL | P2SEL2
  | P3IN | P3OUT | P3DIR | P3REN | P3SEL | P3SEL2
  | IFG2 | UCA0IFG | UCB0IFG
  | UCA0CTL0 | UCA0CTL1 | UCA0MCTL | UCA0BR0 | UCA0BR1 | UCA0TXBUF | UCA0RXBUF
  | UCB0CTL0 | UCB0CTL1 | UCB0BR0 | UCB0BR1 | UCB0TXBUF | UCB0RXBUF
  | USICTL0 | USICTL1 | USICKCTL | USICNT | USISRL | USISRH

datatype event = Wr reg u8 | Rd reg u8

type_synonym regfile = "reg \<Rightarrow> u8"

text \<open>
  The hardware is the environment. A read of a register the hardware owns (a port input
  register, an interrupt flag register, a receive buffer, the USI bit counter and shift
  register) is answered by \<open>env n rf r\<close>: the answer to the \<open>n\<close>-th such read of the run, when the
  software-written register file is \<open>rf\<close>. Nothing is assumed about \<open>env\<close>.
\<close>

type_synonym env = "nat \<Rightarrow> regfile \<Rightarrow> reg \<Rightarrow> u8"

record mstate =
  regs :: regfile
  rd_count :: nat
  trace :: "event list"

text \<open>\<^verbatim>\<open>R = v;\<close>\<close>

definition wr :: "reg \<Rightarrow> u8 \<Rightarrow> mstate \<Rightarrow> mstate" where
  "wr r v s = s\<lparr>regs := (regs s)(r := v), trace := trace s @ [Wr r v]\<rparr>"

text \<open>\<^verbatim>\<open>R &= v;\<close> and \<^verbatim>\<open>R |= v;\<close> on a register that reads back what software wrote.\<close>

definition and_assign :: "reg \<Rightarrow> u8 \<Rightarrow> mstate \<Rightarrow> mstate" where
  "and_assign r v s = wr r (regs s r AND v) s"

definition or_assign :: "reg \<Rightarrow> u8 \<Rightarrow> mstate \<Rightarrow> mstate" where
  "or_assign r v s = wr r (regs s r OR v) s"

text \<open>A read of a hardware-owned register: the environment answers, the read is logged.\<close>

definition hw_rd :: "env \<Rightarrow> reg \<Rightarrow> mstate \<Rightarrow> u8 \<times> mstate" where
  "hw_rd env r s =
     (let v = env (rd_count s) (regs s) r
      in (v, s\<lparr>rd_count := Suc (rd_count s), trace := trace s @ [Rd r v]\<rparr>))"

text \<open>
  The busy-wait loops \<^verbatim>\<open>while ( !(IFG2 & UCA0RXIFG) ) ;\<close> and
  \<^verbatim>\<open>do { LPM0; } while (USICNT & 0x1F);\<close>: read the register until the value satisfies
  \<open>fin\<close>. There is no bound on the number of reads, so the loop is a partial function and
  \<open>None\<close> is the loop that never ends. \<^verbatim>\<open>LPM0\<close> (sleep until the next interrupt) is a step that
  returns.
\<close>

partial_function (option) poll_until :: "env \<Rightarrow> reg \<Rightarrow> (u8 \<Rightarrow> bool) \<Rightarrow> mstate \<Rightarrow> mstate option" where
  "poll_until env r fin s =
     (case hw_rd env r s of (v, s') \<Rightarrow> if fin v then Some s' else poll_until env r fin s')"

section \<open>Constants of the device header\<close>

text \<open>
  Modelled from the spec: the device header \<^verbatim>\<open>msp430.h\<close> is not part of the repository. The
  spec speaks of pins of a port; \<open>BITn\<close> is the mask of pin \<open>n\<close>. The remaining constants are the
  control and flag bits the source names, with the values of the vendor's header.
\<close>

definition BIT0 :: u8 where "BIT0 = 0x01"
definition BIT1 :: u8 where "BIT1 = 0x02"
definition BIT2 :: u8 where "BIT2 = 0x04"
definition BIT3 :: u8 where "BIT3 = 0x08"
definition BIT4 :: u8 where "BIT4 = 0x10"
definition BIT5 :: u8 where "BIT5 = 0x20"
definition BIT6 :: u8 where "BIT6 = 0x40"
definition BIT7 :: u8 where "BIT7 = 0x80"

definition UCSWRST :: u8 where "UCSWRST = 0x01"
definition UCCKPH :: u8 where "UCCKPH = 0x80"
definition UCMSB :: u8 where "UCMSB = 0x20"
definition UCMST :: u8 where "UCMST = 0x08"
definition UCMODE_0 :: u8 where "UCMODE_0 = 0x00"
definition UCSYNC :: u8 where "UCSYNC = 0x01"
definition UCSSEL_2 :: u8 where "UCSSEL_2 = 0x80"
definition UCA0RXIFG :: u8 where "UCA0RXIFG = 0x01"
definition UCB0RXIFG :: u8 where "UCB0RXIFG = 0x04"
definition UCRXIFG :: u8 where "UCRXIFG = 0x01"

definition USISWRST :: u8 where "USISWRST = 0x01"
definition USIOE :: u8 where "USIOE = 0x02"
definition USIMST :: u8 where "USIMST = 0x08"
definition USIPE5 :: u8 where "USIPE5 = 0x20"
definition USIPE6 :: u8 where "USIPE6 = 0x40"
definition USIPE7 :: u8 where "USIPE7 = 0x80"
definition USICKPH :: u8 where "USICKPH = 0x80"
definition USIIE :: u8 where "USIIE = 0x10"
definition USISSEL_2 :: u8 where "USISSEL_2 = 0x08"
definition USIDIV_0 :: u8 where "USIDIV_0 = 0x00"
definition USI16B :: u8 where "USI16B = 0x40"

section \<open>The USI section (\<^verbatim>\<open>#ifdef __MSP430_HAS_USI__\<close>)\<close>

text \<open>
  \<^verbatim>\<open>USISR = inw;\<close> stores both bytes; \<^verbatim>\<open>return USISR;\<close> reads both in one access.
  \<^verbatim>\<open>USICTL0\<close>, \<^verbatim>\<open>USICTL1\<close> and \<^verbatim>\<open>USICKCTL\<close> read back what software wrote (the flag bits the
  hardware raises in \<^verbatim>\<open>USICTL1\<close> are left out); \<^verbatim>\<open>USICNT\<close> and the shift register are read from
  the hardware.
\<close>

definition wr_USISR :: "u16 \<Rightarrow> mstate \<Rightarrow> mstate" where
  "wr_USISR w s = wr USISRH (ucast (drop_bit 8 w)) (wr USISRL (ucast w) s)"

definition rd_USISR :: "env \<Rightarrow> mstate \<Rightarrow> u16 \<times> mstate" where
  "rd_USISR env s =
     (let lo = env (rd_count s) (regs s) USISRL;
          hi = env (rd_count s) (regs s) USISRH
      in (push_bit 8 (ucast hi) OR ucast lo,
          s\<lparr>rd_count := Suc (rd_count s), trace := trace s @ [Rd USISRL lo, Rd USISRH hi]\<rparr>))"

definition spi_init_USI :: "mstate \<Rightarrow> mstate" where
  "spi_init_USI s0 =
     (let s1 = or_assign USICTL0 USISWRST s0;
          s2 = wr USICTL1 USICKPH s1;
          s3 = wr USICKCTL (USISSEL_2 OR USIDIV_0) s2;
          s4 = wr USICTL0 (USIPE7 OR USIPE6 OR USIPE5 OR USIMST OR USIOE) s3;
          s5 = wr_USISR 0x0000 s4
      in s5)"

definition spi_transfer_USI :: "env \<Rightarrow> u8 \<Rightarrow> mstate \<Rightarrow> (u8 \<times> mstate) option" where
  "spi_transfer_USI env inb s0 =
     (let s1 = or_assign USICTL1 USIIE s0;
          s2 = wr USISRL inb s1;
          s3 = wr USICNT 8 s2
      in case poll_until env USICNT (\<lambda>v. v AND 0x1F = 0) s3 of
           None \<Rightarrow> None
         | Some s4 \<Rightarrow>
             (let s5 = and_assign USICTL1 (NOT USIIE) s4
              in Some (hw_rd env USISRL s5)))"

definition spi_transfer16_USI :: "env \<Rightarrow> u16 \<Rightarrow> mstate \<Rightarrow> (u16 \<times> mstate) option" where
  "spi_transfer16_USI env inw s0 =
     (let s1 = or_assign USICTL1 USIIE s0;
          s2 = wr_USISR inw s1;
          s3 = wr USICNT (16 OR USI16B) s2
      in case poll_until env USICNT (\<lambda>v. v AND 0x1F = 0) s3 of
           None \<Rightarrow> None
         | Some s4 \<Rightarrow>
             (let s5 = and_assign USICTL1 (NOT USIIE) s4
              in Some (rd_USISR env s5)))"

definition spi_transfer9_USI :: "env \<Rightarrow> u16 \<Rightarrow> mstate \<Rightarrow> (u16 \<times> mstate) option" where
  "spi_transfer9_USI env inw s0 =
     (let s1 = or_assign USICTL1 USIIE s0;
          s2 = wr_USISR inw s1;
          s3 = wr USICNT (9 OR USI16B) s2
      in case poll_until env USICNT (\<lambda>v. v AND 0x1F = 0) s3 of
           None \<Rightarrow> None
         | Some s4 \<Rightarrow>
             (let s5 = and_assign USICTL1 (NOT USIIE) s4
              in Some (rd_USISR env s5)))"

section \<open>The USCI sections: initialisation and the 8-bit and 16-bit exchanges\<close>

text \<open>
  The six USCI sections repeat one body for \<^verbatim>\<open>spi_transfer\<close> and one for
  \<^verbatim>\<open>spi_transfer16\<close>; only the names of the transmit buffer, the flag register, the flag and
  the receive buffer change. \<open>usci_transfer\<close> and \<open>usci_transfer16\<close> are those bodies.
\<close>

definition usci_transfer ::
  "reg \<Rightarrow> reg \<Rightarrow> u8 \<Rightarrow> reg \<Rightarrow> env \<Rightarrow> u8 \<Rightarrow> mstate \<Rightarrow> (u8 \<times> mstate) option" where
  "usci_transfer txbuf ifg rxifg rxbuf env inb s0 =
     (let s1 = wr txbuf inb s0
      in case poll_until env ifg (\<lambda>v. v AND rxifg \<noteq> 0) s1 of
           None \<Rightarrow> None
         | Some s2 \<Rightarrow> Some (hw_rd env rxbuf s2))"

text \<open>
  \<^verbatim>\<open>spi_transfer16\<close> splits and rebuilds the 16-bit value through \<^verbatim>\<open>uint8_t *\<close> pointers into
  its storage, so what \<^verbatim>\<open>inw8[1]\<close> is depends on the byte order of the host. The byte order is
  a parameter; the MSP430 is little-endian.
\<close>

datatype byte_order = LittleEndian | BigEndian

text \<open>\<open>byte_at bo w i\<close> is \<^verbatim>\<open>((uint8_t *)&w)[i]\<close>.\<close>

definition byte_at :: "byte_order \<Rightarrow> u16 \<Rightarrow> nat \<Rightarrow> u8" where
  "byte_at bo w i =
     (case bo of
        LittleEndian \<Rightarrow> (if i = 0 then ucast w else ucast (drop_bit 8 w))
      | BigEndian \<Rightarrow> (if i = 0 then ucast (drop_bit 8 w) else ucast w))"

text \<open>The 16-bit value whose storage bytes are \<open>b0\<close> (at index 0) and \<open>b1\<close> (at index 1).\<close>

definition word_of_bytes :: "byte_order \<Rightarrow> u8 \<Rightarrow> u8 \<Rightarrow> u16" where
  "word_of_bytes bo b0 b1 =
     (case bo of
        LittleEndian \<Rightarrow> push_bit 8 (ucast b1) OR ucast b0
      | BigEndian \<Rightarrow> push_bit 8 (ucast b0) OR ucast b1)"

definition usci_transfer16 ::
  "reg \<Rightarrow> reg \<Rightarrow> u8 \<Rightarrow> reg \<Rightarrow> byte_order \<Rightarrow> env \<Rightarrow> u16 \<Rightarrow> mstate \<Rightarrow> (u16 \<times> mstate) option" where
  "usci_transfer16 txbuf ifg rxifg rxbuf bo env inw s0 =
     (let s1 = wr txbuf (byte_at bo inw 1) s0
      in case poll_until env ifg (\<lambda>v. v AND rxifg \<noteq> 0) s1 of
           None \<Rightarrow> None
         | Some s2 \<Rightarrow>
             (let (retw8_1, s3) = hw_rd env rxbuf s2;
                  s4 = wr txbuf (byte_at bo inw 0) s3
              in case poll_until env ifg (\<lambda>v. v AND rxifg \<noteq> 0) s4 of
                   None \<Rightarrow> None
                 | Some s5 \<Rightarrow>
                     (let (retw8_0, s6) = hw_rd env rxbuf s5
                      in Some (word_of_bytes bo retw8_0 retw8_1, s6))))"

text \<open>\<^verbatim>\<open>__MSP430_HAS_USCI__\<close>, \<^verbatim>\<open>SPI_DRIVER_USCI_A\<close>, no \<^verbatim>\<open>__MSP430_HAS_TB3__\<close>.\<close>

definition spi_init_USCI_A :: "mstate \<Rightarrow> mstate" where
  "spi_init_USCI_A s0 =
     (let s1 = or_assign P1SEL (BIT1 OR BIT2 OR BIT4) s0;
          s2 = or_assign P1SEL2 (BIT1 OR BIT2 OR BIT4) s1;
          s3 = or_assign UCA0CTL1 UCSWRST s2;
          s4 = wr UCA0MCTL 0x00 s3;
          s5 = wr UCA0CTL0 (UCCKPH OR UCMSB OR UCMST OR UCMODE_0 OR UCSYNC) s4;
          s6 = wr UCA0BR0 0x01 s5;
          s7 = wr UCA0BR1 0x00 s6;
          s8 = wr UCA0CTL1 UCSSEL_2 s7
      in s8)"

text \<open>\<^verbatim>\<open>__MSP430_HAS_USCI__\<close>, \<^verbatim>\<open>SPI_DRIVER_USCI_B\<close>, no \<^verbatim>\<open>__MSP430_HAS_TB3__\<close>.\<close>

definition spi_init_USCI_B :: "mstate \<Rightarrow> mstate" where
  "spi_init_USCI_B s0 =
     (let s1 = or_assign P1SEL (BIT5 OR BIT6 OR BIT7) s0;
          s2 = or_assign P1SEL2 (BIT5 OR BIT6 OR BIT7) s1;
          s3 = or_assign UCB0CTL1 UCSWRST s2;
          s4 = wr UCB0CTL0 (UCCKPH OR UCMSB OR UCMST OR UCMODE_0 OR UCSYNC) s3;
          s5 = wr UCB0BR0 0x01 s4;
          s6 = wr UCB0BR1 0x00 s5;
          s7 = wr UCB0CTL1 UCSSEL_2 s6
      in s7)"

text \<open>\<^verbatim>\<open>__MSP430_HAS_USCI__\<close>, \<^verbatim>\<open>SPI_DRIVER_USCI_A\<close>, \<^verbatim>\<open>__MSP430_HAS_TB3__\<close>.\<close>

definition spi_init_USCI_A_TB3 :: "mstate \<Rightarrow> mstate" where
  "spi_init_USCI_A_TB3 s0 =
     (let s1 = or_assign P3SEL (BIT0 OR BIT4 OR BIT5) s0;
          s2 = and_assign P3SEL2 (NOT (BIT0 OR BIT4 OR BIT5)) s1;
          s3 = or_assign UCA0CTL1 UCSWRST s2;
          s4 = wr UCA0MCTL 0x00 s3;
          s5 = wr UCA0CTL0 (UCCKPH OR UCMSB OR UCMST OR UCMODE_0 OR UCSYNC) s4;
          s6 = wr UCA0BR0 0x01 s5;
          s7 = wr UCA0BR1 0x00 s6;
          s8 = wr UCA0CTL1 UCSSEL_2 s7
      in s8)"

text \<open>\<^verbatim>\<open>__MSP430_HAS_USCI__\<close>, \<^verbatim>\<open>SPI_DRIVER_USCI_B\<close>, \<^verbatim>\<open>__MSP430_HAS_TB3__\<close>.\<close>

definition spi_init_USCI_B_TB3 :: "mstate \<Rightarrow> mstate" where
  "spi_init_USCI_B_TB3 s0 =
     (let s1 = or_assign P3SEL (BIT1 OR BIT2 OR BIT3) s0;
          s2 = and_assign P3SEL2 (NOT (BIT1 OR BIT2 OR BIT3)) s1;
          s3 = or_assign UCB0CTL1 UCSWRST s2;
          s4 = wr UCB0CTL0 (UCCKPH OR UCMSB OR UCMST OR UCMODE_0 OR UCSYNC) s3;
          s5 = wr UCB0BR0 0x01 s4;
          s6 = wr UCB0BR1 0x00 s5;
          s7 = wr UCB0CTL1 UCSSEL_2 s6
      in s7)"

text \<open>
  \<^verbatim>\<open>__MSP430_HAS_USCI_A0__\<close>, \<^verbatim>\<open>SPI_DRIVER_USCI_A\<close>. The pin routing is under
  \<^verbatim>\<open>#ifdef __MSP430F5172\<close> and \<^verbatim>\<open>#ifdef __MSP430F5529\<close>: the two flags say which are defined.
\<close>

definition spi_init_F5_USCI_A :: "bool \<Rightarrow> bool \<Rightarrow> mstate \<Rightarrow> mstate" where
  "spi_init_F5_USCI_A f5172 f5529 s0 =
     (let s1 = (if f5172 then or_assign P1SEL (BIT0 OR BIT1 OR BIT2) s0 else s0);
          s2 = (if f5529 then or_assign P2SEL BIT7 (or_assign P3SEL (BIT3 OR BIT4) s1) else s1);
          s3 = or_assign UCA0CTL1 UCSWRST s2;
          s4 = wr UCA0MCTL 0x00 s3;
          s5 = wr UCA0CTL0 (UCCKPH OR UCMSB OR UCMST OR UCMODE_0 OR UCSYNC) s4;
          s6 = wr UCA0BR0 0x01 s5;
          s7 = wr UCA0BR1 0x00 s6;
          s8 = wr UCA0CTL1 UCSSEL_2 s7
      in s8)"

text \<open>\<^verbatim>\<open>__MSP430_HAS_USCI_B0__\<close>, \<^verbatim>\<open>SPI_DRIVER_USCI_B\<close>.\<close>

definition spi_init_F5_USCI_B :: "bool \<Rightarrow> bool \<Rightarrow> mstate \<Rightarrow> mstate" where
  "spi_init_F5_USCI_B f5172 f5529 s0 =
     (let s1 = (if f5172 then or_assign P1SEL (BIT3 OR BIT4 OR BIT5) s0 else s0);
          s2 = (if f5529 then or_assign P3SEL (BIT0 OR BIT1 OR BIT2) s1 else s1);
          s3 = or_assign UCB0CTL1 UCSWRST s2;
          s4 = wr UCB0CTL0 (UCCKPH OR UCMSB OR UCMST OR UCMODE_0 OR UCSYNC) s3;
          s5 = wr UCB0BR0 0x01 s4;
          s6 = wr UCB0BR1 0x00 s5;
          s7 = wr UCB0CTL1 UCSSEL_2 s6
      in s7)"

section \<open>The 9-bit transfer of the USCI sections\<close>

text \<open>
  The USCI peripheral clocks eight bits at a time. Each \<^verbatim>\<open>spi_transfer9\<close> takes the three
  pins over as plain port pins, clocks bit 8 of \<open>inw\<close> out by hand, gives the pins back and
  sends the low byte with \<^verbatim>\<open>spi_transfer\<close>. One definition per section of the source, statement
  by statement.
\<close>

definition spi_transfer_USCI_A :: "env \<Rightarrow> u8 \<Rightarrow> mstate \<Rightarrow> (u8 \<times> mstate) option" where
  "spi_transfer_USCI_A = usci_transfer UCA0TXBUF IFG2 UCA0RXIFG UCA0RXBUF"

definition spi_transfer_USCI_B :: "env \<Rightarrow> u8 \<Rightarrow> mstate \<Rightarrow> (u8 \<times> mstate) option" where
  "spi_transfer_USCI_B = usci_transfer UCB0TXBUF IFG2 UCB0RXIFG UCB0RXBUF"

definition spi_transfer_F5_USCI_A :: "env \<Rightarrow> u8 \<Rightarrow> mstate \<Rightarrow> (u8 \<times> mstate) option" where
  "spi_transfer_F5_USCI_A = usci_transfer UCA0TXBUF UCA0IFG UCRXIFG UCA0RXBUF"

definition spi_transfer_F5_USCI_B :: "env \<Rightarrow> u8 \<Rightarrow> mstate \<Rightarrow> (u8 \<times> mstate) option" where
  "spi_transfer_F5_USCI_B = usci_transfer UCB0TXBUF UCB0IFG UCRXIFG UCB0RXBUF"

definition spi_transfer16_USCI_A :: "byte_order \<Rightarrow> env \<Rightarrow> u16 \<Rightarrow> mstate \<Rightarrow> (u16 \<times> mstate) option" where
  "spi_transfer16_USCI_A = usci_transfer16 UCA0TXBUF IFG2 UCA0RXIFG UCA0RXBUF"

definition spi_transfer16_USCI_B :: "byte_order \<Rightarrow> env \<Rightarrow> u16 \<Rightarrow> mstate \<Rightarrow> (u16 \<times> mstate) option" where
  "spi_transfer16_USCI_B = usci_transfer16 UCB0TXBUF IFG2 UCB0RXIFG UCB0RXBUF"

definition spi_transfer16_F5_USCI_A :: "byte_order \<Rightarrow> env \<Rightarrow> u16 \<Rightarrow> mstate \<Rightarrow> (u16 \<times> mstate) option" where
  "spi_transfer16_F5_USCI_A = usci_transfer16 UCA0TXBUF UCA0IFG UCRXIFG UCA0RXBUF"

definition spi_transfer16_F5_USCI_B :: "byte_order \<Rightarrow> env \<Rightarrow> u16 \<Rightarrow> mstate \<Rightarrow> (u16 \<times> mstate) option" where
  "spi_transfer16_F5_USCI_B = usci_transfer16 UCB0TXBUF UCB0IFG UCRXIFG UCB0RXBUF"

text \<open>Lines 125 to 155: USCI_A on port 1 (F2xxx, G2xx3).\<close>

definition spi_transfer9_USCI_A :: "env \<Rightarrow> u16 \<Rightarrow> mstate \<Rightarrow> (u16 \<times> mstate) option" where
  "spi_transfer9_USCI_A env inw s0 =
     (let retw0 = (0 :: u16);
          p1ren_save = regs s0 P1REN; p1out_save = regs s0 P1OUT; p1dir_save = regs s0 P1DIR;
          s1 = and_assign P1REN (NOT (BIT1 OR BIT2 OR BIT4)) s0;
          s2 = and_assign P1OUT (NOT (BIT1 OR BIT2 OR BIT4)) s1;
          s3 = wr P1DIR ((regs s2 P1DIR AND NOT (BIT1 OR BIT2 OR BIT4)) OR BIT2 OR BIT4) s2;
          s4 = and_assign P1SEL (NOT (BIT1 OR BIT2 OR BIT4)) s3;
          s5 = and_assign P1SEL2 (NOT (BIT1 OR BIT2 OR BIT4)) s4;
          s6 = (if inw AND 0x0100 \<noteq> 0 then or_assign P1OUT BIT2 s5 else s5);
          s7 = or_assign P1OUT BIT4 s6;
          (p1in, s8) = hw_rd env P1IN s7;
          retw1 = (if p1in AND BIT1 \<noteq> 0 then retw0 OR 0x0100 else retw0);
          s9 = and_assign P1OUT (NOT BIT4) s8;
          s10 = or_assign P1SEL (BIT1 OR BIT2 OR BIT4) s9;
          s11 = or_assign P1SEL2 (BIT1 OR BIT2 OR BIT4) s10;
          s12 = wr P1DIR p1dir_save s11;
          s13 = wr P1OUT p1out_save s12;
          s14 = wr P1REN p1ren_save s13
      in case spi_transfer_USCI_A env (ucast (inw AND 0x00FF)) s14 of
           None \<Rightarrow> None
         | Some (rb, s15) \<Rightarrow> Some (retw1 OR ucast rb, s15))"

text \<open>Lines 197 to 227: USCI_B on port 1 (F2xxx, G2xx3). The sampled bit is \<^verbatim>\<open>BIT4\<close>, as written.\<close>

definition spi_transfer9_USCI_B :: "env \<Rightarrow> u16 \<Rightarrow> mstate \<Rightarrow> (u16 \<times> mstate) option" where
  "spi_transfer9_USCI_B env inw s0 =
     (let retw0 = (0 :: u16);
          p1ren_save = regs s0 P1REN; p1out_save = regs s0 P1OUT; p1dir_save = regs s0 P1DIR;
          s1 = and_assign P1REN (NOT (BIT5 OR BIT6 OR BIT7)) s0;
          s2 = and_assign P1OUT (NOT (BIT5 OR BIT6 OR BIT7)) s1;
          s3 = wr P1DIR ((regs s2 P1DIR AND NOT (BIT5 OR BIT6 OR BIT7)) OR BIT5 OR BIT7) s2;
          s4 = and_assign P1SEL (NOT (BIT5 OR BIT6 OR BIT7)) s3;
          s5 = and_assign P1SEL2 (NOT (BIT5 OR BIT6 OR BIT7)) s4;
          s6 = (if inw AND 0x0100 \<noteq> 0 then or_assign P1OUT BIT7 s5 else s5);
          s7 = or_assign P1OUT BIT5 s6;
          (p1in, s8) = hw_rd env P1IN s7;
          retw1 = (if p1in AND BIT4 \<noteq> 0 then retw0 OR 0x0100 else retw0);
          s9 = and_assign P1OUT (NOT BIT5) s8;
          s10 = or_assign P1SEL (BIT5 OR BIT6 OR BIT7) s9;
          s11 = or_assign P1SEL2 (BIT5 OR BIT6 OR BIT7) s10;
          s12 = wr P1DIR p1dir_save s11;
          s13 = wr P1OUT p1out_save s12;
          s14 = wr P1REN p1ren_save s13
      in case spi_transfer_USCI_B env (ucast (inw AND 0x00FF)) s14 of
           None \<Rightarrow> None
         | Some (rb, s15) \<Rightarrow> Some (retw1 OR ucast rb, s15))"

text \<open>Lines 271 to 300: USCI_A on port 3 (G2xx4, G2xx5). \<^verbatim>\<open>P3SEL2\<close> is cleared and left clear.\<close>

definition spi_transfer9_USCI_A_TB3 :: "env \<Rightarrow> u16 \<Rightarrow> mstate \<Rightarrow> (u16 \<times> mstate) option" where
  "spi_transfer9_USCI_A_TB3 env inw s0 =
     (let retw0 = (0 :: u16);
          p3ren_save = regs s0 P3REN; p3out_save = regs s0 P3OUT; p3dir_save = regs s0 P3DIR;
          s1 = and_assign P3REN (NOT (BIT0 OR BIT4 OR BIT5)) s0;
          s2 = and_assign P3OUT (NOT (BIT0 OR BIT4 OR BIT5)) s1;
          s3 = wr P3DIR ((regs s2 P3DIR AND NOT (BIT0 OR BIT4 OR BIT5)) OR BIT0 OR BIT4) s2;
          s4 = and_assign P3SEL (NOT (BIT0 OR BIT4 OR BIT5)) s3;
          s5 = and_assign P3SEL2 (NOT (BIT0 OR BIT4 OR BIT5)) s4;
          s6 = (if inw AND 0x0100 \<noteq> 0 then or_assign P3OUT BIT4 s5 else s5);
          s7 = or_assign P3OUT BIT0 s6;
          (p3in, s8) = hw_rd env P3IN s7;
          retw1 = (if p3in AND BIT5 \<noteq> 0 then retw0 OR 0x0100 else retw0);
          s9 = and_assign P3OUT (NOT BIT0) s8;
          s10 = or_assign P3SEL (BIT0 OR BIT4 OR BIT5) s9;
          s11 = wr P3DIR p3dir_save s10;
          s12 = wr P3OUT p3out_save s11;
          s13 = wr P3REN p3ren_save s12
      in case spi_transfer_USCI_A env (ucast (inw AND 0x00FF)) s13 of
           None \<Rightarrow> None
         | Some (rb, s14) \<Rightarrow> Some (retw1 OR ucast rb, s14))"

text \<open>Lines 342 to 371: USCI_B on port 3 (G2xx4, G2xx5).\<close>

definition spi_transfer9_USCI_B_TB3 :: "env \<Rightarrow> u16 \<Rightarrow> mstate \<Rightarrow> (u16 \<times> mstate) option" where
  "spi_transfer9_USCI_B_TB3 env inw s0 =
     (let retw0 = (0 :: u16);
          p3ren_save = regs s0 P3REN; p3out_save = regs s0 P3OUT; p3dir_save = regs s0 P3DIR;
          s1 = and_assign P3REN (NOT (BIT1 OR BIT2 OR BIT3)) s0;
          s2 = and_assign P3OUT (NOT (BIT1 OR BIT2 OR BIT3)) s1;
          s3 = wr P3DIR ((regs s2 P3DIR AND NOT (BIT1 OR BIT2 OR BIT3)) OR BIT1 OR BIT3) s2;
          s4 = and_assign P3SEL (NOT (BIT1 OR BIT2 OR BIT3)) s3;
          s5 = and_assign P3SEL2 (NOT (BIT1 OR BIT2 OR BIT3)) s4;
          s6 = (if inw AND 0x0100 \<noteq> 0 then or_assign P3OUT BIT1 s5 else s5);
          s7 = or_assign P3OUT BIT3 s6;
          (p3in, s8) = hw_rd env P3IN s7;
          retw1 = (if p3in AND BIT2 \<noteq> 0 then retw0 OR 0x0100 else retw0);
          s9 = and_assign P3OUT (NOT BIT3) s8;
          s10 = or_assign P3SEL (BIT1 OR BIT2 OR BIT3) s9;
          s11 = wr P3DIR p3dir_save s10;
          s12 = wr P3OUT p3out_save s11;
          s13 = wr P3REN p3ren_save s12
      in case spi_transfer_USCI_B env (ucast (inw AND 0x00FF)) s13 of
           None \<Rightarrow> None
         | Some (rb, s14) \<Rightarrow> Some (retw1 OR ucast rb, s14))"

text \<open>Lines 421 to 449: USCI_A0 of the F5172, under \<^verbatim>\<open>#ifdef __MS430F5172\<close>.\<close>

definition spi_transfer9_F5_USCI_A_F5172 :: "env \<Rightarrow> u16 \<Rightarrow> mstate \<Rightarrow> (u16 \<times> mstate) option" where
  "spi_transfer9_F5_USCI_A_F5172 env inw s0 =
     (let retw0 = (0 :: u16);
          p1ren_save = regs s0 P1REN; p1out_save = regs s0 P1OUT; p1dir_save = regs s0 P1DIR;
          s1 = and_assign P1REN (NOT (BIT0 OR BIT1 OR BIT2)) s0;
          s2 = and_assign P1OUT (NOT (BIT0 OR BIT1 OR BIT2)) s1;
          s3 = wr P1DIR ((regs s2 P1DIR AND NOT (BIT0 OR BIT1 OR BIT2)) OR BIT0 OR BIT1) s2;
          s4 = and_assign P1SEL (NOT (BIT0 OR BIT1 OR BIT2)) s3;
          s5 = (if inw AND 0x0100 \<noteq> 0 then or_assign P1OUT BIT1 s4 else s4);
          s6 = or_assign P1OUT BIT0 s5;
          (p1in, s7) = hw_rd env P1IN s6;
          retw1 = (if p1in AND BIT2 \<noteq> 0 then retw0 OR 0x0100 else retw0);
          s8 = and_assign P1OUT (NOT BIT0) s7;
          s9 = or_assign P1SEL (BIT0 OR BIT1 OR BIT2) s8;
          s10 = wr P1DIR p1dir_save s9;
          s11 = wr P1OUT p1out_save s10;
          s12 = wr P1REN p1ren_save s11
      in case spi_transfer_F5_USCI_A env (ucast (inw AND 0x00FF)) s12 of
           None \<Rightarrow> None
         | Some (rb, s13) \<Rightarrow> Some (retw1 OR ucast rb, s13))"

text \<open>
  Lines 453 to 483: USCI_A0 of the F5529, under \<^verbatim>\<open>#ifdef __MS430F5529\<close>. Data on port 3, clock
  on port 2. The direction update reads \<^verbatim>\<open>(P3DIR | ~(BIT3 | BIT4)) | BIT3\<close>, as written.
\<close>

definition spi_transfer9_F5_USCI_A_F5529 :: "env \<Rightarrow> u16 \<Rightarrow> mstate \<Rightarrow> (u16 \<times> mstate) option" where
  "spi_transfer9_F5_USCI_A_F5529 env inw s0 =
     (let retw0 = (0 :: u16);
          p3ren_save = regs s0 P3REN; p3out_save = regs s0 P3OUT; p3dir_save = regs s0 P3DIR;
          p2ren_save = regs s0 P2REN; p2out_save = regs s0 P2OUT; p2dir_save = regs s0 P2DIR;
          s1 = and_assign P3REN (NOT (BIT3 OR BIT4)) s0;
          s2 = and_assign P2REN (NOT BIT7) s1;
          s3 = and_assign P3OUT (NOT (BIT3 OR BIT4)) s2;
          s4 = and_assign P2OUT (NOT BIT7) s3;
          s5 = wr P3DIR ((regs s4 P3DIR OR NOT (BIT3 OR BIT4)) OR BIT3) s4;
          s6 = or_assign P2DIR BIT7 s5;
          s7 = and_assign P3SEL (NOT (BIT3 OR BIT4)) s6;
          s8 = and_assign P2SEL (NOT BIT7) s7;
          s9 = (if inw AND 0x0100 \<noteq> 0 then or_assign P3OUT BIT3 s8 else s8);
          s10 = or_assign P2OUT BIT7 s9;
          (p3in, s11) = hw_rd env P3IN s10;
          retw1 = (if p3in AND BIT4 \<noteq> 0 then retw0 OR 0x0100 else retw0);
          s12 = and_assign P2OUT (NOT BIT7) s11;
          s13 = or_assign P3SEL (BIT3 OR BIT4) s12;
          s14 = or_assign P2SEL BIT7 s13;
          s15 = wr P3DIR p3dir_save s14;
          s16 = wr P2DIR p2dir_save s15;
          s17 = wr P3OUT p3out_save s16;
          s18 = wr P2OUT p2out_save s17;
          s19 = wr P3REN p3ren_save s18;
          s20 = wr P2REN p2ren_save s19
      in case spi_transfer_F5_USCI_A env (ucast (inw AND 0x00FF)) s20 of
           None \<Rightarrow> None
         | Some (rb, s21) \<Rightarrow> Some (retw1 OR ucast rb, s21))"

text \<open>Lines 532 to 560: USCI_B0 of the F5172, under \<^verbatim>\<open>#ifdef __MSP430F5172\<close>.\<close>

definition spi_transfer9_F5_USCI_B_F5172 :: "env \<Rightarrow> u16 \<Rightarrow> mstate \<Rightarrow> (u16 \<times> mstate) option" where
  "spi_transfer9_F5_USCI_B_F5172 env inw s0 =
     (let retw0 = (0 :: u16);
          p1ren_save = regs s0 P1REN; p1out_save = regs s0 P1OUT; p1dir_save = regs s0 P1DIR;
          s1 = and_assign P1REN (NOT (BIT3 OR BIT4 OR BIT5)) s0;
          s2 = and_assign P1OUT (NOT (BIT3 OR BIT4 OR BIT5)) s1;
          s3 = wr P1DIR ((regs s2 P1DIR AND NOT (BIT3 OR BIT4 OR BIT5)) OR BIT3 OR BIT4) s2;
          s4 = and_assign P1SEL (NOT (BIT3 OR BIT4 OR BIT5)) s3;
          s5 = (if inw AND 0x0100 \<noteq> 0 then or_assign P1OUT BIT4 s4 else s4);
          s6 = or_assign P1OUT BIT3 s5;
          (p1in, s7) = hw_rd env P1IN s6;
          retw1 = (if p1in AND BIT5 \<noteq> 0 then retw0 OR 0x0100 else retw0);
          s8 = and_assign P1OUT (NOT BIT3) s7;
          s9 = or_assign P1SEL (BIT3 OR BIT4 OR BIT5) s8;
          s10 = wr P1DIR p1dir_save s9;
          s11 = wr P1OUT p1out_save s10;
          s12 = wr P1REN p1ren_save s11
      in case spi_transfer_F5_USCI_B env (ucast (inw AND 0x00FF)) s12 of
           None \<Rightarrow> None
         | Some (rb, s13) \<Rightarrow> Some (retw1 OR ucast rb, s13))"

text \<open>Lines 564 to 592: USCI_B0 of the F5529, under \<^verbatim>\<open>#ifdef __MSP430F5529\<close>.\<close>

definition spi_transfer9_F5_USCI_B_F5529 :: "env \<Rightarrow> u16 \<Rightarrow> mstate \<Rightarrow> (u16 \<times> mstate) option" where
  "spi_transfer9_F5_USCI_B_F5529 env inw s0 =
     (let retw0 = (0 :: u16);
          p3ren_save = regs s0 P3REN; p3out_save = regs s0 P3OUT; p3dir_save = regs s0 P3DIR;
          s1 = and_assign P3REN (NOT (BIT0 OR BIT1 OR BIT2)) s0;
          s2 = and_assign P3OUT (NOT (BIT0 OR BIT1 OR BIT2)) s1;
          s3 = wr P3DIR ((regs s2 P3DIR AND NOT (BIT0 OR BIT1 OR BIT2)) OR BIT0 OR BIT2) s2;
          s4 = and_assign P3SEL (NOT (BIT0 OR BIT1 OR BIT2)) s3;
          s5 = (if inw AND 0x0100 \<noteq> 0 then or_assign P3OUT BIT0 s4 else s4);
          s6 = or_assign P3OUT BIT2 s5;
          (p3in, s7) = hw_rd env P3IN s6;
          retw1 = (if p3in AND BIT1 \<noteq> 0 then retw0 OR 0x0100 else retw0);
          s8 = and_assign P3OUT (NOT BIT2) s7;
          s9 = or_assign P3SEL (BIT0 OR BIT1 OR BIT2) s8;
          s10 = wr P3DIR p3dir_save s9;
          s11 = wr P3OUT p3out_save s10;
          s12 = wr P3REN p3ren_save s11
      in case spi_transfer_F5_USCI_B env (ucast (inw AND 0x00FF)) s12 of
           None \<Rightarrow> None
         | Some (rb, s13) \<Rightarrow> Some (retw1 OR ucast rb, s13))"

section \<open>Backends\<close>

text \<open>
  A backend is one section of the source together with, for the F5xxx sections, the device. The
  entry points of a backend are the definitions the source writes for it.
\<close>

datatype backend =
    USI | USCI_A | USCI_B | USCI_A_TB3 | USCI_B_TB3
  | F5_USCI_A_F5172 | F5_USCI_A_F5529 | F5_USCI_B_F5172 | F5_USCI_B_F5529

fun spi_init :: "backend \<Rightarrow> mstate \<Rightarrow> mstate" where
  "spi_init USI = spi_init_USI"
| "spi_init USCI_A = spi_init_USCI_A"
| "spi_init USCI_B = spi_init_USCI_B"
| "spi_init USCI_A_TB3 = spi_init_USCI_A_TB3"
| "spi_init USCI_B_TB3 = spi_init_USCI_B_TB3"
| "spi_init F5_USCI_A_F5172 = spi_init_F5_USCI_A True False"
| "spi_init F5_USCI_A_F5529 = spi_init_F5_USCI_A False True"
| "spi_init F5_USCI_B_F5172 = spi_init_F5_USCI_B True False"
| "spi_init F5_USCI_B_F5529 = spi_init_F5_USCI_B False True"

fun spi_transfer :: "backend \<Rightarrow> env \<Rightarrow> u8 \<Rightarrow> mstate \<Rightarrow> (u8 \<times> mstate) option" where
  "spi_transfer USI = spi_transfer_USI"
| "spi_transfer USCI_A = spi_transfer_USCI_A"
| "spi_transfer USCI_B = spi_transfer_USCI_B"
| "spi_transfer USCI_A_TB3 = spi_transfer_USCI_A"
| "spi_transfer USCI_B_TB3 = spi_transfer_USCI_B"
| "spi_transfer F5_USCI_A_F5172 = spi_transfer_F5_USCI_A"
| "spi_transfer F5_USCI_A_F5529 = spi_transfer_F5_USCI_A"
| "spi_transfer F5_USCI_B_F5172 = spi_transfer_F5_USCI_B"
| "spi_transfer F5_USCI_B_F5529 = spi_transfer_F5_USCI_B"

fun spi_transfer16 :: "backend \<Rightarrow> byte_order \<Rightarrow> env \<Rightarrow> u16 \<Rightarrow> mstate \<Rightarrow> (u16 \<times> mstate) option" where
  "spi_transfer16 USI = (\<lambda>bo. spi_transfer16_USI)"
| "spi_transfer16 USCI_A = spi_transfer16_USCI_A"
| "spi_transfer16 USCI_B = spi_transfer16_USCI_B"
| "spi_transfer16 USCI_A_TB3 = spi_transfer16_USCI_A"
| "spi_transfer16 USCI_B_TB3 = spi_transfer16_USCI_B"
| "spi_transfer16 F5_USCI_A_F5172 = spi_transfer16_F5_USCI_A"
| "spi_transfer16 F5_USCI_A_F5529 = spi_transfer16_F5_USCI_A"
| "spi_transfer16 F5_USCI_B_F5172 = spi_transfer16_F5_USCI_B"
| "spi_transfer16 F5_USCI_B_F5529 = spi_transfer16_F5_USCI_B"

fun spi_transfer9 :: "backend \<Rightarrow> env \<Rightarrow> u16 \<Rightarrow> mstate \<Rightarrow> (u16 \<times> mstate) option" where
  "spi_transfer9 USI = spi_transfer9_USI"
| "spi_transfer9 USCI_A = spi_transfer9_USCI_A"
| "spi_transfer9 USCI_B = spi_transfer9_USCI_B"
| "spi_transfer9 USCI_A_TB3 = spi_transfer9_USCI_A_TB3"
| "spi_transfer9 USCI_B_TB3 = spi_transfer9_USCI_B_TB3"
| "spi_transfer9 F5_USCI_A_F5172 = spi_transfer9_F5_USCI_A_F5172"
| "spi_transfer9 F5_USCI_A_F5529 = spi_transfer9_F5_USCI_A_F5529"
| "spi_transfer9 F5_USCI_B_F5172 = spi_transfer9_F5_USCI_B_F5172"
| "spi_transfer9 F5_USCI_B_F5529 = spi_transfer9_F5_USCI_B_F5529"

text \<open>The backends whose \<^verbatim>\<open>spi_transfer9\<close> clocks the ninth bit by hand: all but the USI.\<close>

definition bitbang :: "backend \<Rightarrow> bool" where
  "bitbang b = (b \<noteq> USI)"

section \<open>Conditional compilation\<close>

text \<open>
  The preprocessor symbols the source tests (leading and trailing underscores dropped), and the
  function definitions a set \<open>D\<close> of defined symbols leaves in the translation unit, each with
  the line of the source where it starts. \<open>MS430F5172\<close> and \<open>MS430F5529\<close> are the symbols
  \<^verbatim>\<open>__MS430F5172\<close> and \<^verbatim>\<open>__MS430F5529\<close> of lines 420 and 452.
\<close>

datatype macro =
    MSP430_HAS_USI | MSP430_HAS_USCI | MSP430_HAS_TB3 | MSP430_HAS_USCI_A0 | MSP430_HAS_USCI_B0
  | SPI_DRIVER_USCI_A | SPI_DRIVER_USCI_B
  | MSP430F5172 | MSP430F5529 | MS430F5172 | MS430F5529

datatype entry = Spi_init | Spi_transfer | Spi_transfer16 | Spi_transfer9

definition translation_unit :: "macro set \<Rightarrow> (entry \<times> nat) list" where
  "translation_unit D =
     (if MSP430_HAS_USI \<in> D
      then [(Spi_init, 30), (Spi_transfer, 40), (Spi_transfer16, 53), (Spi_transfer9, 66)]
      else []) @
     (if MSP430_HAS_USCI \<in> D \<and> SPI_DRIVER_USCI_A \<in> D \<and> MSP430_HAS_TB3 \<notin> D
      then [(Spi_init, 86), (Spi_transfer, 101), (Spi_transfer16, 109), (Spi_transfer9, 125)]
      else []) @
     (if MSP430_HAS_USCI \<in> D \<and> SPI_DRIVER_USCI_B \<in> D \<and> MSP430_HAS_TB3 \<notin> D
      then [(Spi_init, 159), (Spi_transfer, 173), (Spi_transfer16, 181), (Spi_transfer9, 197)]
      else []) @
     (if MSP430_HAS_USCI \<in> D \<and> SPI_DRIVER_USCI_A \<in> D \<and> MSP430_HAS_TB3 \<in> D
      then [(Spi_init, 232), (Spi_transfer, 247), (Spi_transfer16, 255), (Spi_transfer9, 271)]
      else []) @
     (if MSP430_HAS_USCI \<in> D \<and> SPI_DRIVER_USCI_B \<in> D \<and> MSP430_HAS_TB3 \<in> D
      then [(Spi_init, 304), (Spi_transfer, 318), (Spi_transfer16, 326), (Spi_transfer9, 342)]
      else []) @
     (if MSP430_HAS_USCI_A0 \<in> D \<and> SPI_DRIVER_USCI_A \<in> D
      then [(Spi_init, 376), (Spi_transfer, 396), (Spi_transfer16, 404)] @
           (if MS430F5172 \<in> D then [(Spi_transfer9, 421)] else []) @
           (if MS430F5529 \<in> D then [(Spi_transfer9, 453)] else [])
      else []) @
     (if MSP430_HAS_USCI_B0 \<in> D \<and> SPI_DRIVER_USCI_B \<in> D
      then [(Spi_init, 489), (Spi_transfer, 507), (Spi_transfer16, 515)] @
           (if MSP430F5172 \<in> D then [(Spi_transfer9, 532)] else []) @
           (if MSP430F5529 \<in> D then [(Spi_transfer9, 564)] else [])
      else [])"

text \<open>
  The symbols that select a backend: what the device header defines for the chip, the driver
  choice, and for the F5xxx the device symbol that \<^verbatim>\<open>spi_init\<close> tests.
\<close>

fun config_of :: "backend \<Rightarrow> macro set" where
  "config_of USI = {MSP430_HAS_USI}"
| "config_of USCI_A = {MSP430_HAS_USCI, SPI_DRIVER_USCI_A}"
| "config_of USCI_B = {MSP430_HAS_USCI, SPI_DRIVER_USCI_B}"
| "config_of USCI_A_TB3 = {MSP430_HAS_USCI, MSP430_HAS_TB3, SPI_DRIVER_USCI_A}"
| "config_of USCI_B_TB3 = {MSP430_HAS_USCI, MSP430_HAS_TB3, SPI_DRIVER_USCI_B}"
| "config_of F5_USCI_A_F5172 =
     {MSP430_HAS_USCI_A0, MSP430_HAS_USCI_B0, SPI_DRIVER_USCI_A, MSP430F5172}"
| "config_of F5_USCI_A_F5529 =
     {MSP430_HAS_USCI_A0, MSP430_HAS_USCI_B0, SPI_DRIVER_USCI_A, MSP430F5529}"
| "config_of F5_USCI_B_F5172 =
     {MSP430_HAS_USCI_A0, MSP430_HAS_USCI_B0, SPI_DRIVER_USCI_B, MSP430F5172}"
| "config_of F5_USCI_B_F5529 =
     {MSP430_HAS_USCI_A0, MSP430_HAS_USCI_B0, SPI_DRIVER_USCI_B, MSP430F5529}"

definition entry_points :: "backend \<Rightarrow> entry list" where
  "entry_points b = map fst (translation_unit (config_of b))"

section \<open>Vocabulary of the properties\<close>

subsection \<open>Polling\<close>

text \<open>The state after \<open>n\<close> reads of \<open>r\<close>, and the value the \<open>k\<close>-th read from \<open>s\<close> on returns.\<close>

fun polled :: "env \<Rightarrow> reg \<Rightarrow> nat \<Rightarrow> mstate \<Rightarrow> mstate" where
  "polled env r 0 s = s"
| "polled env r (Suc n) s = polled env r n (snd (hw_rd env r s))"

definition flag_at :: "env \<Rightarrow> reg \<Rightarrow> mstate \<Rightarrow> nat \<Rightarrow> u8" where
  "flag_at env r s k = env (rd_count s + k) (regs s) r"

subsection \<open>The registers and pins of a backend\<close>

fun txbuf :: "backend \<Rightarrow> reg" where
  "txbuf USI = USISRL"
| "txbuf USCI_A = UCA0TXBUF"
| "txbuf USCI_B = UCB0TXBUF"
| "txbuf USCI_A_TB3 = UCA0TXBUF"
| "txbuf USCI_B_TB3 = UCB0TXBUF"
| "txbuf F5_USCI_A_F5172 = UCA0TXBUF"
| "txbuf F5_USCI_A_F5529 = UCA0TXBUF"
| "txbuf F5_USCI_B_F5172 = UCB0TXBUF"
| "txbuf F5_USCI_B_F5529 = UCB0TXBUF"

fun rxbuf :: "backend \<Rightarrow> reg" where
  "rxbuf USI = USISRL"
| "rxbuf USCI_A = UCA0RXBUF"
| "rxbuf USCI_B = UCB0RXBUF"
| "rxbuf USCI_A_TB3 = UCA0RXBUF"
| "rxbuf USCI_B_TB3 = UCB0RXBUF"
| "rxbuf F5_USCI_A_F5172 = UCA0RXBUF"
| "rxbuf F5_USCI_A_F5529 = UCA0RXBUF"
| "rxbuf F5_USCI_B_F5172 = UCB0RXBUF"
| "rxbuf F5_USCI_B_F5529 = UCB0RXBUF"

fun flag_reg :: "backend \<Rightarrow> reg" where
  "flag_reg USI = USICNT"
| "flag_reg USCI_A = IFG2"
| "flag_reg USCI_B = IFG2"
| "flag_reg USCI_A_TB3 = IFG2"
| "flag_reg USCI_B_TB3 = IFG2"
| "flag_reg F5_USCI_A_F5172 = UCA0IFG"
| "flag_reg F5_USCI_A_F5529 = UCA0IFG"
| "flag_reg F5_USCI_B_F5172 = UCB0IFG"
| "flag_reg F5_USCI_B_F5529 = UCB0IFG"

text \<open>The value of the flag register that ends the wait of \<^verbatim>\<open>spi_transfer\<close>.\<close>

fun rx_complete :: "backend \<Rightarrow> u8 \<Rightarrow> bool" where
  "rx_complete USI v = (v AND 0x1F = 0)"
| "rx_complete USCI_A v = (v AND UCA0RXIFG \<noteq> 0)"
| "rx_complete USCI_B v = (v AND UCB0RXIFG \<noteq> 0)"
| "rx_complete USCI_A_TB3 v = (v AND UCA0RXIFG \<noteq> 0)"
| "rx_complete USCI_B_TB3 v = (v AND UCB0RXIFG \<noteq> 0)"
| "rx_complete F5_USCI_A_F5172 v = (v AND UCRXIFG \<noteq> 0)"
| "rx_complete F5_USCI_A_F5529 v = (v AND UCRXIFG \<noteq> 0)"
| "rx_complete F5_USCI_B_F5172 v = (v AND UCRXIFG \<noteq> 0)"
| "rx_complete F5_USCI_B_F5529 v = (v AND UCRXIFG \<noteq> 0)"

text \<open>The state in which the wait of \<^verbatim>\<open>spi_transfer\<close> begins: the byte has been handed over.\<close>

definition started :: "backend \<Rightarrow> u8 \<Rightarrow> mstate \<Rightarrow> mstate" where
  "started b inb s =
     (if b = USI then wr USICNT 8 (wr USISRL inb (or_assign USICTL1 USIIE s))
      else wr (txbuf b) inb s)"

datatype port = Port1 | Port2 | Port3

fun PxIN :: "port \<Rightarrow> reg" where
  "PxIN Port1 = P1IN" | "PxIN Port2 = P2IN" | "PxIN Port3 = P3IN"

fun PxOUT :: "port \<Rightarrow> reg" where
  "PxOUT Port1 = P1OUT" | "PxOUT Port2 = P2OUT" | "PxOUT Port3 = P3OUT"

fun PxDIR :: "port \<Rightarrow> reg" where
  "PxDIR Port1 = P1DIR" | "PxDIR Port2 = P2DIR" | "PxDIR Port3 = P3DIR"

fun PxREN :: "port \<Rightarrow> reg" where
  "PxREN Port1 = P1REN" | "PxREN Port2 = P2REN" | "PxREN Port3 = P3REN"

fun PxSEL :: "port \<Rightarrow> reg" where
  "PxSEL Port1 = P1SEL" | "PxSEL Port2 = P2SEL" | "PxSEL Port3 = P3SEL"

fun PxSEL2 :: "port \<Rightarrow> reg" where
  "PxSEL2 Port1 = P1SEL2" | "PxSEL2 Port2 = P2SEL2" | "PxSEL2 Port3 = P3SEL2"

type_synonym pin = "port \<times> nat"

text \<open>
  The three pins of each backend, read off its \<^verbatim>\<open>spi_init\<close> and \<^verbatim>\<open>spi_transfer9\<close>: the clock is
  the pin \<^verbatim>\<open>spi_transfer9\<close> raises and lowers, data-out the pin it sets when bit 8 of \<open>inw\<close> is
  set, data-in the third pin, the one it makes an input. (The USI has no such function; its
  pins are P1.5, P1.6 and P1.7.)
\<close>

fun clk_pin :: "backend \<Rightarrow> pin" where
  "clk_pin USI = (Port1, 5)"
| "clk_pin USCI_A = (Port1, 4)"
| "clk_pin USCI_B = (Port1, 5)"
| "clk_pin USCI_A_TB3 = (Port3, 0)"
| "clk_pin USCI_B_TB3 = (Port3, 3)"
| "clk_pin F5_USCI_A_F5172 = (Port1, 0)"
| "clk_pin F5_USCI_A_F5529 = (Port2, 7)"
| "clk_pin F5_USCI_B_F5172 = (Port1, 3)"
| "clk_pin F5_USCI_B_F5529 = (Port3, 2)"

fun dout_pin :: "backend \<Rightarrow> pin" where
  "dout_pin USI = (Port1, 6)"
| "dout_pin USCI_A = (Port1, 2)"
| "dout_pin USCI_B = (Port1, 7)"
| "dout_pin USCI_A_TB3 = (Port3, 4)"
| "dout_pin USCI_B_TB3 = (Port3, 1)"
| "dout_pin F5_USCI_A_F5172 = (Port1, 1)"
| "dout_pin F5_USCI_A_F5529 = (Port3, 3)"
| "dout_pin F5_USCI_B_F5172 = (Port1, 4)"
| "dout_pin F5_USCI_B_F5529 = (Port3, 0)"

fun din_pin :: "backend \<Rightarrow> pin" where
  "din_pin USI = (Port1, 7)"
| "din_pin USCI_A = (Port1, 1)"
| "din_pin USCI_B = (Port1, 6)"
| "din_pin USCI_A_TB3 = (Port3, 5)"
| "din_pin USCI_B_TB3 = (Port3, 2)"
| "din_pin F5_USCI_A_F5172 = (Port1, 2)"
| "din_pin F5_USCI_A_F5529 = (Port3, 4)"
| "din_pin F5_USCI_B_F5172 = (Port1, 5)"
| "din_pin F5_USCI_B_F5529 = (Port3, 1)"

definition spi_pins :: "backend \<Rightarrow> pin list" where
  "spi_pins b = [clk_pin b, dout_pin b, din_pin b]"

text \<open>
  How a backend routes a pin to the peripheral, as its \<^verbatim>\<open>spi_init\<close> does it: the F2xxx and
  G2xx3 sections set the pin's bit in \<^verbatim>\<open>PxSEL\<close> and in \<^verbatim>\<open>PxSEL2\<close> (\<open>Some True\<close>), the G2xx4 and
  G2xx5 sections set it in \<^verbatim>\<open>PxSEL\<close> and clear it in \<^verbatim>\<open>PxSEL2\<close> (\<open>Some False\<close>), the F5xxx
  sections have \<^verbatim>\<open>PxSEL\<close> only (\<open>None\<close>).
\<close>

fun sel2_mode :: "backend \<Rightarrow> bool option" where
  "sel2_mode USI = None"
| "sel2_mode USCI_A = Some True"
| "sel2_mode USCI_B = Some True"
| "sel2_mode USCI_A_TB3 = Some False"
| "sel2_mode USCI_B_TB3 = Some False"
| "sel2_mode F5_USCI_A_F5172 = None"
| "sel2_mode F5_USCI_A_F5529 = None"
| "sel2_mode F5_USCI_B_F5172 = None"
| "sel2_mode F5_USCI_B_F5529 = None"

fun peripheral_pin :: "backend \<Rightarrow> regfile \<Rightarrow> pin \<Rightarrow> bool" where
  "peripheral_pin b rf (p, n) =
     (bit (rf (PxSEL p)) n \<and>
      (case sel2_mode b of None \<Rightarrow> True | Some v \<Rightarrow> bit (rf (PxSEL2 p)) n = v))"

definition peripheral_role :: "backend \<Rightarrow> regfile \<Rightarrow> bool" where
  "peripheral_role b rf = list_all (peripheral_pin b rf) (spi_pins b)"

text \<open>A pin is a plain port pin when its select bits are clear.\<close>

fun gpio_pin :: "backend \<Rightarrow> regfile \<Rightarrow> pin \<Rightarrow> bool" where
  "gpio_pin b rf (p, n) =
     (\<not> bit (rf (PxSEL p)) n \<and>
      (case sel2_mode b of None \<Rightarrow> True | Some v \<Rightarrow> \<not> bit (rf (PxSEL2 p)) n))"

text \<open>Direction, output level and pull-resistor enable of every port.\<close>

definition port_state :: "regfile \<Rightarrow> u8 list" where
  "port_state rf = map rf [P1DIR, P1OUT, P1REN, P2DIR, P2OUT, P2REN, P3DIR, P3OUT, P3REN]"

subsection \<open>Reading the access log\<close>

fun apply_event :: "event \<Rightarrow> regfile \<Rightarrow> regfile" where
  "apply_event (Wr r v) rf = rf(r := v)"
| "apply_event (Rd r v) rf = rf"

definition replay :: "event list \<Rightarrow> regfile \<Rightarrow> regfile" where
  "replay evs rf = fold apply_event evs rf"

text \<open>What a call logged: the log at its end without the log at its start.\<close>

definition new_events :: "mstate \<Rightarrow> mstate \<Rightarrow> event list" where
  "new_events s s' = drop (length (trace s)) (trace s')"

fun is_wr_to :: "reg \<Rightarrow> event \<Rightarrow> bool" where
  "is_wr_to r (Wr q v) = (q = r)"
| "is_wr_to r (Rd q v) = False"

text \<open>The bytes written to register \<open>r\<close>, in order.\<close>

fun writes_to :: "reg \<Rightarrow> event list \<Rightarrow> u8 list" where
  "writes_to r [] = []"
| "writes_to r (Wr q v # es) = (if q = r then v # writes_to r es else writes_to r es)"
| "writes_to r (Rd q v # es) = writes_to r es"

text \<open>
  The level of a line the software can drive by hand. A pin that is a plain port pin (its select
  bits clear) and an output drives its output bit, \<open>High\<close> or \<open>Low\<close>; a pin routed to the
  peripheral, or an input, is \<open>Released\<close>: the software does not drive it.
\<close>

datatype level = Released | Low | High

fun line_level :: "backend \<Rightarrow> regfile \<Rightarrow> pin \<Rightarrow> level" where
  "line_level b rf (p, n) =
     (if gpio_pin b rf (p, n) \<and> bit (rf (PxDIR p)) n
      then (if bit (rf (PxOUT p)) n then High else Low)
      else Released)"

text \<open>
  What an observer of the lines sees of a log that starts from register file \<open>rf\<close>, one
  observation per access at most: a byte handed to the transmit buffer; a write after which
  the pair of levels of data-out and clock differs from the pair before it, with the new
  levels \<open>Lines dout clk\<close> (a write that moves both lines is one observation); a read of the
  port input register that carries data-in, with the level of the data-in pin in the value
  read.
\<close>

datatype wire_event = Lines level level | Sample bool | HwTransfer u8

fun wire_trace :: "backend \<Rightarrow> regfile \<Rightarrow> event list \<Rightarrow> wire_event list" where
  "wire_trace b rf [] = []"
| "wire_trace b rf (e # es) =
     (let rf' = apply_event e rf
      in (case e of
            Wr r v \<Rightarrow>
              (if r = txbuf b then [HwTransfer v]
               else if line_level b rf' (dout_pin b) \<noteq> line_level b rf (dout_pin b) \<or>
                       line_level b rf' (clk_pin b) \<noteq> line_level b rf (clk_pin b)
               then [Lines (line_level b rf' (dout_pin b)) (line_level b rf' (clk_pin b))]
               else [])
          | Rd r v \<Rightarrow>
              (if r = PxIN (fst (din_pin b)) then [Sample (bit v (snd (din_pin b)))] else [])) @
         wire_trace b rf' es)"

text \<open>An observation in which neither line is high: no sample, no byte handed over.\<close>

fun quiet :: "wire_event \<Rightarrow> bool" where
  "quiet (Lines d c) = (d \<noteq> High \<and> c \<noteq> High)"
| "quiet (Sample l) = False"
| "quiet (HwTransfer v) = False"

text \<open>The values read from register \<open>r\<close>, in order.\<close>

fun reads_of :: "reg \<Rightarrow> event list \<Rightarrow> u8 list" where
  "reads_of r [] = []"
| "reads_of r (Rd q v # es) = (if q = r then v # reads_of r es else reads_of r es)"
| "reads_of r (Wr q v # es) = reads_of r es"

subsection \<open>Loopback\<close>

text \<open>
  Data-out wired to data-in: whenever data-out is a plain output pin, the data-in bit of the
  port input register reads the level driven on data-out, and the receive buffer returns the
  byte in the transmit buffer. \<open>completes\<close>: from any moment on, the hardware raises the
  receive flag after finitely many reads.
\<close>

definition pin_loopback :: "backend \<Rightarrow> env \<Rightarrow> nat \<Rightarrow> regfile \<Rightarrow> bool" where
  "pin_loopback b env n rf =
     (\<not> (gpio_pin b rf (dout_pin b) \<and> bit (rf (PxDIR (fst (dout_pin b)))) (snd (dout_pin b))) \<or>
      bit (env n rf (PxIN (fst (din_pin b)))) (snd (din_pin b)) =
      bit (rf (PxOUT (fst (dout_pin b)))) (snd (dout_pin b)))"

definition loopback :: "backend \<Rightarrow> env \<Rightarrow> bool" where
  "loopback b env =
     (\<forall>n rf. pin_loopback b env n rf \<and> env n rf (rxbuf b) = rf (txbuf b))"

definition completes :: "backend \<Rightarrow> env \<Rightarrow> bool" where
  "completes b env = (\<forall>n rf. \<exists>k. rx_complete b (env (n + k) rf (flag_reg b)))"

subsection \<open>The 16-bit transfer in the words of the specification\<close>

text \<open>
  Two 8-bit transfers, most significant byte first, the received bytes recombined in the same
  order.
\<close>

definition transfer16_by_bytes ::
  "backend \<Rightarrow> env \<Rightarrow> u16 \<Rightarrow> mstate \<Rightarrow> (u16 \<times> mstate) option" where
  "transfer16_by_bytes b env v s =
     (case spi_transfer b env (ucast (drop_bit 8 v)) s of
        None \<Rightarrow> None
      | Some (hi, s1) \<Rightarrow>
          (case spi_transfer b env (ucast (v AND 0xFF)) s1 of
             None \<Rightarrow> None
           | Some (lo, s2) \<Rightarrow> Some (push_bit 8 (ucast hi) OR ucast lo, s2)))"

subsection \<open>Restoration, frame and concrete inputs\<close>

text \<open>
  The pins are back as they were: direction, output level and pull-resistor enable of every
  port equal those of \<open>rf0\<close>, and the three pins are routed to the peripheral.
\<close>

definition restored :: "backend \<Rightarrow> regfile \<Rightarrow> regfile \<Rightarrow> bool" where
  "restored b rf0 rf = (port_state rf = port_state rf0 \<and> peripheral_role b rf)"

fun is_rd_of :: "reg list \<Rightarrow> event \<Rightarrow> bool" where
  "is_rd_of rs (Rd q v) = (q \<in> set rs)"
| "is_rd_of rs (Wr q v) = False"

text \<open>The mask of the backend's pins on a port, and the port a port register belongs to.\<close>

definition pin_mask :: "backend \<Rightarrow> port \<Rightarrow> u8" where
  "pin_mask b p = foldr (\<lambda>(q, n) m. if q = p then m OR push_bit n 1 else m) (spi_pins b) 0"

fun port_of :: "reg \<Rightarrow> port option" where
  "port_of r =
     (if r \<in> {P1OUT, P1DIR, P1REN, P1SEL, P1SEL2} then Some Port1
      else if r \<in> {P2OUT, P2DIR, P2REN, P2SEL, P2SEL2} then Some Port2
      else if r \<in> {P3OUT, P3DIR, P3REN, P3SEL, P3SEL2} then Some Port3
      else None)"

text \<open>
  An access keeps the frame when it is a read, a write to the transmit buffer, or a write to a
  port register that leaves every bit outside the backend's pins as it is in \<open>rf0\<close>.
\<close>

fun keeps_frame :: "backend \<Rightarrow> regfile \<Rightarrow> event \<Rightarrow> bool" where
  "keeps_frame b rf0 (Rd r v) = True"
| "keeps_frame b rf0 (Wr r v) =
     (case port_of r of
        None \<Rightarrow> r = txbuf b
      | Some p \<Rightarrow> v AND NOT (pin_mask b p) = rf0 r AND NOT (pin_mask b p))"

text \<open>
  Inputs for the concrete runs: the state with every register zero; hardware that answers
  every read with \<open>v\<close>; hardware wired as a loopback, where the data-in pin follows the
  output bit of data-out and is the only pin high, every flag is up, and the receive buffer
  returns the byte in the transmit buffer; and slow hardware, which raises the receive flag
  of USCI_A only from the third read of the run on and holds \<open>0x3C\<close> in the receive buffer.
\<close>

definition reset_state :: mstate where
  "reset_state = \<lparr>regs = (\<lambda>r. 0), rd_count = 0, trace = []\<rparr>"

definition env_const :: "u8 \<Rightarrow> env" where
  "env_const v = (\<lambda>n rf r. v)"

definition env_wired :: "backend \<Rightarrow> env" where
  "env_wired b n rf r =
     (if r = PxIN (fst (din_pin b))
      then (if bit (rf (PxOUT (fst (dout_pin b)))) (snd (dout_pin b))
            then push_bit (snd (din_pin b)) 1 else 0)
      else if r = flag_reg b then 0xFF
      else if r = rxbuf b then rf (txbuf b)
      else 0)"

definition env_slow :: env where
  "env_slow n rf r =
     (if r = IFG2 then (if n < 2 then 0 else UCA0RXIFG)
      else if r = UCA0RXBUF then 0x3C
      else 0)"

section \<open>The wait loop\<close>

lemma flag_at_0: "fst (hw_rd env r s) = flag_at env r s 0"
  by (simp add: hw_rd_def flag_at_def Let_def)

lemma flag_at_Suc: "flag_at env r (snd (hw_rd env r s)) k = flag_at env r s (Suc k)"
  by (simp add: hw_rd_def flag_at_def Let_def)

lemma poll_until_step:
  "poll_until env r fin s =
     (if fin (flag_at env r s 0) then Some (snd (hw_rd env r s))
      else poll_until env r fin (snd (hw_rd env r s)))"
  by (subst poll_until.simps) (simp add: flag_at_0 [symmetric] split: prod.splits)

lemma poll_until_Some:
  "fin (flag_at env r s k) \<Longrightarrow> \<forall>j<k. \<not> fin (flag_at env r s j) \<Longrightarrow>
   poll_until env r fin s = Some (polled env r (Suc k) s)"
proof (induction k arbitrary: s)
  case 0
  then show ?case
    by (subst poll_until_step) simp
next
  case (Suc k)
  have a: "fin (flag_at env r (snd (hw_rd env r s)) k)"
    using Suc.prems(1) by (simp add: flag_at_Suc)
  have b: "\<forall>j<k. \<not> fin (flag_at env r (snd (hw_rd env r s)) j)"
    using Suc.prems(2) by (auto simp add: flag_at_Suc)
  have c: "\<not> fin (flag_at env r s 0)"
    using Suc.prems(2) by simp
  have "poll_until env r fin s = poll_until env r fin (snd (hw_rd env r s))"
    using c by (subst poll_until_step) simp
  also have "\<dots> = Some (polled env r (Suc k) (snd (hw_rd env r s)))"
    using Suc.IH [OF a b] .
  finally show ?case by simp
qed

lemma poll_until_ex:
  assumes "poll_until env r fin s = Some s'"
  shows "\<exists>k. fin (flag_at env r s k)"
proof (rule poll_until.raw_induct
    [where P = "\<lambda>env r fin s s'. \<exists>k. fin (flag_at env r s k)", OF _ assms])
  fix pu :: "env \<Rightarrow> reg \<Rightarrow> (u8 \<Rightarrow> bool) \<Rightarrow> mstate \<Rightarrow> mstate option"
  fix env r fin s s'
  assume IH: "\<And>env r fin s s'. pu env r fin s = Some s' \<Longrightarrow> \<exists>k. fin (flag_at env r s k)"
  assume eq: "(case hw_rd env r s of (v, t) \<Rightarrow> if fin v then Some t else pu env r fin t) = Some s'"
  obtain v t where h: "hw_rd env r s = (v, t)"
    by (cases "hw_rd env r s")
  have v: "v = flag_at env r s 0"
    using h flag_at_0 [of env r s] by simp
  show "\<exists>k. fin (flag_at env r s k)"
  proof (cases "fin v")
    case True
    then have "fin (flag_at env r s 0)" using v by simp
    then show ?thesis ..
  next
    case False
    then have "pu env r fin t = Some s'"
      using eq h by simp
    then have "\<exists>k. fin (flag_at env r t k)"
      by (rule IH)
    then obtain k where k: "fin (flag_at env r t k)" ..
    have "flag_at env r t k = flag_at env r s (Suc k)"
      using flag_at_Suc [of env r s k] h by simp
    then have "fin (flag_at env r s (Suc k))" using k by simp
    then show ?thesis ..
  qed
qed

lemma poll_until_None:
  "\<forall>k. \<not> fin (flag_at env r s k) \<Longrightarrow> poll_until env r fin s = None"
  using poll_until_ex [of env r fin s] by (cases "poll_until env r fin s") auto

lemma poll_until_Least:
  assumes "\<exists>k. fin (flag_at env r s k)"
  shows "poll_until env r fin s = Some (polled env r (Suc (LEAST k. fin (flag_at env r s k))) s)"
proof (rule poll_until_Some)
  show "fin (flag_at env r s (LEAST k. fin (flag_at env r s k)))"
    using assms by (rule LeastI_ex)
  show "\<forall>j<LEAST k. fin (flag_at env r s k). \<not> fin (flag_at env r s j)"
  proof (intro allI impI)
    fix j assume "j < (LEAST k. fin (flag_at env r s k))"
    then show "\<not> fin (flag_at env r s j)" by (rule not_less_Least)
  qed
qed

lemma polled_regs: "regs (polled env r n s) = regs s"
  by (induction n arbitrary: s) (simp_all add: hw_rd_def Let_def)

lemma polled_rd_count: "rd_count (polled env r n s) = rd_count s + n"
  by (induction n arbitrary: s) (simp_all add: hw_rd_def Let_def)

lemma polled_trace:
  "trace (polled env r n s) = trace s @ map (\<lambda>k. Rd r (flag_at env r s k)) [0..<n]"
proof (induction n arbitrary: s)
  case 0 show ?case by simp
next
  case (Suc n)
  have "map (\<lambda>k. Rd r (flag_at env r s k)) [0..<Suc n] = Rd r (flag_at env r s 0) # map (\<lambda>k. Rd r (flag_at env r s (Suc k))) [0..<n]"
    by (simp add: upt_conv_Cons map_Suc_upt [symmetric] del: upt_Suc)
  moreover have "trace (snd (hw_rd env r s)) = trace s @ [Rd r (flag_at env r s 0)]"
    by (simp add: hw_rd_def Let_def flag_at_def)
  ultimately show ?case using Suc.IH [of "snd (hw_rd env r s)"]
    by (simp add: flag_at_Suc del: upt_Suc)
qed

lemma flag_at_cong: "regs s = regs t \<Longrightarrow> rd_count s = rd_count t \<Longrightarrow> flag_at env r s = flag_at env r t"
  by (rule ext) (simp add: flag_at_def)

lemma poll_until_eq:
  "poll_until env r fin s =
     (if \<exists>k. fin (flag_at env r s k)
      then Some (polled env r (Suc (LEAST k. fin (flag_at env r s k))) s)
      else None)"
  using poll_until_Least [of fin env r s] poll_until_None [of fin env r s] by auto

lemma poll_until_now:
  "fin (flag_at env r s 0) \<Longrightarrow> poll_until env r fin s = Some (snd (hw_rd env r s))"
  using poll_until_Some [of fin env r s 0] by simp

lemma usci_transfer_eq:
  "usci_transfer tx ifg m rx env x s =
     (if \<exists>k. flag_at env ifg (wr tx x s) k AND m \<noteq> 0
      then Some (hw_rd env rx (polled env ifg
             (Suc (LEAST k. flag_at env ifg (wr tx x s) k AND m \<noteq> 0)) (wr tx x s)))
      else None)"
  by (simp add: usci_transfer_def Let_def poll_until_eq)

lemma usci_transfer_now:
  "flag_at env ifg (wr tx x s) 0 AND m \<noteq> 0 \<Longrightarrow>
   usci_transfer tx ifg m rx env x s = Some (hw_rd env rx (snd (hw_rd env ifg (wr tx x s))))"
  by (simp add: usci_transfer_def Let_def poll_until_now)

lemma usci_transfer_cong:
  assumes "regs s = regs t" "rd_count s = rd_count t"
  shows "map_option fst (usci_transfer tx ifg m rx env x s) =
         map_option fst (usci_transfer tx ifg m rx env x t)"
proof -
  have "flag_at env ifg (wr tx x s) = flag_at env ifg (wr tx x t)"
    using assms by (intro flag_at_cong) (simp_all add: wr_def)
  then show ?thesis
    using assms
    by (simp add: usci_transfer_eq hw_rd_def Let_def polled_regs polled_rd_count wr_def)
qed

lemma spi_transfer_USI_eq:
  "spi_transfer_USI env x s =
     (if \<exists>k. flag_at env USICNT (started USI x s) k AND 0x1F = 0
      then Some (hw_rd env USISRL (and_assign USICTL1 (NOT USIIE) (polled env USICNT
             (Suc (LEAST k. flag_at env USICNT (started USI x s) k AND 0x1F = 0)) (started USI x s))))
      else None)"
  by (simp add: spi_transfer_USI_def started_def Let_def poll_until_eq)

lemma spi_transfer_USI_cong:
  assumes "regs s = regs t" "rd_count s = rd_count t"
  shows "map_option fst (spi_transfer_USI env x s) = map_option fst (spi_transfer_USI env x t)"
proof -
  have "flag_at env USICNT (started USI x s) = flag_at env USICNT (started USI x t)"
    using assms by (intro flag_at_cong) (simp_all add: started_def wr_def or_assign_def)
  then show ?thesis
    using assms
    by (simp add: spi_transfer_USI_eq hw_rd_def Let_def polled_regs polled_rd_count wr_def
        and_assign_def or_assign_def started_def)
qed

lemmas spi_transfer_defs = spi_transfer_USCI_A_def spi_transfer_USCI_B_def
  spi_transfer_F5_USCI_A_def spi_transfer_F5_USCI_B_def

lemma spi_transfer_cong:
  assumes "regs s = regs t" "rd_count s = rd_count t"
  shows "map_option fst (spi_transfer b env x s) = map_option fst (spi_transfer b env x t)"
  by (cases b)
    (simp_all add: spi_transfer_USI_cong [OF assms] usci_transfer_cong [OF assms] spi_transfer_USCI_A_def
      spi_transfer_USCI_B_def spi_transfer_F5_USCI_A_def spi_transfer_F5_USCI_B_def)

lemmas flag_defs = UCA0RXIFG_def UCB0RXIFG_def UCRXIFG_def

section \<open>Initialisation\<close>

lemmas stmt_defs = wr_def and_assign_def or_assign_def hw_rd_def

lemmas BIT_defs = BIT0_def BIT1_def BIT2_def BIT3_def BIT4_def BIT5_def BIT6_def BIT7_def

lemmas init_defs = wr_USISR_def spi_init_USI_def spi_init_USCI_A_def spi_init_USCI_B_def spi_init_USCI_A_TB3_def
  spi_init_USCI_B_TB3_def spi_init_F5_USCI_A_def spi_init_F5_USCI_B_def

lemma spi_init_rd_count: "rd_count (spi_init b s) = rd_count s"
  by (cases b) (simp_all add: init_defs Let_def wr_def or_assign_def and_assign_def)

lemma spi_init_regs_idem: "regs (spi_init b (spi_init b s)) = regs (spi_init b s)"
  by (cases b) (simp_all add: init_defs Let_def wr_def or_assign_def and_assign_def)

text \<open>
  Claim C6. \<^verbatim>\<open>spi_init\<close> is idempotent, on every backend and from every state: the register
  file after two calls in a row is the register file after one, no hardware read is consumed,
  and so a following \<^verbatim>\<open>spi_transfer(0x55)\<close> returns the same byte (or waits forever in both
  cases) against any hardware.
\<close>

theorem spi_init_idempotent:
  "regs (spi_init b (spi_init b s)) = regs (spi_init b s) \<and>
   rd_count (spi_init b (spi_init b s)) = rd_count (spi_init b s) \<and>
   map_option fst (spi_transfer b env 0x55 (spi_init b (spi_init b s))) =
   map_option fst (spi_transfer b env 0x55 (spi_init b s))"
  using spi_transfer_cong [of "spi_init b (spi_init b s)" "spi_init b s" b env "0x55"]
  by (simp add: spi_init_regs_idem spi_init_rd_count)

lemma init_peripheral_role: "bitbang b \<Longrightarrow> peripheral_role b (regs (spi_init b s))"
  by (cases b)
    (simp_all add: bitbang_def peripheral_role_def spi_pins_def init_defs Let_def stmt_defs
      bit_simps BIT_defs)

section \<open>Entry points per configuration\<close>

text \<open>
  Claim C5, evaluated on the two F5xxx USCI_A configurations: the translation unit defines
  \<^verbatim>\<open>spi_init\<close>, \<^verbatim>\<open>spi_transfer\<close> and \<^verbatim>\<open>spi_transfer16\<close> and no \<^verbatim>\<open>spi_transfer9\<close>, because lines 420
  and 452 test \<^verbatim>\<open>__MS430F5172\<close> and \<^verbatim>\<open>__MS430F5529\<close> where \<^verbatim>\<open>spi_init\<close> (lines 379 and 382)
  tests \<^verbatim>\<open>__MSP430F5172\<close> and \<^verbatim>\<open>__MSP430F5529\<close>.
\<close>

theorem f5_usci_a_lacks_transfer9:
  "entry_points F5_USCI_A_F5172 = [Spi_init, Spi_transfer, Spi_transfer16] \<and>
   entry_points F5_USCI_A_F5529 = [Spi_init, Spi_transfer, Spi_transfer16]"
  by (simp add: entry_points_def translation_unit_def)

text \<open>Every other backend has each of the four entry points exactly once.\<close>

lemma other_backends_entry_points:
  "b \<noteq> F5_USCI_A_F5172 \<Longrightarrow> b \<noteq> F5_USCI_A_F5529 \<Longrightarrow>
   entry_points b = [Spi_init, Spi_transfer, Spi_transfer16, Spi_transfer9]"
  by (cases b) (simp_all add: entry_points_def translation_unit_def)

theorem other_backends_entry_points_witness:
  "entry_points USCI_B_TB3 = [Spi_init, Spi_transfer, Spi_transfer16, Spi_transfer9]"
  using other_backends_entry_points [of USCI_B_TB3] by simp

section \<open>The 8-bit transfer returns exactly when the hardware completes\<close>

lemma least_complete:
  assumes "\<exists>k. P (k :: nat)"
  shows "\<exists>K. P K \<and> (\<forall>j<K. \<not> P j)"
proof (intro exI conjI allI impI)
  show "P (LEAST k. P k)"
    using assms by (rule LeastI_ex)
  fix j assume "j < (LEAST k. P k)"
  then show "\<not> P j" by (rule not_less_Least)
qed

lemma usci_transfer_exact:
  assumes "flag_at env ifg (wr tx x s) K AND m \<noteq> 0"
    and "\<forall>j<K. \<not> flag_at env ifg (wr tx x s) j AND m \<noteq> 0"
  shows "usci_transfer tx ifg m rx env x s = Some (hw_rd env rx (polled env ifg (Suc K) (wr tx x s)))"
  using poll_until_Some [of "\<lambda>v. v AND m \<noteq> 0" env ifg "wr tx x s" K] assms
  by (simp add: usci_transfer_def Let_def del: polled.simps)

lemma usci_transfer_log:
  assumes "flag_at env ifg (wr tx x s) K AND m \<noteq> 0"
    and "\<forall>j<K. \<not> flag_at env ifg (wr tx x s) j AND m \<noteq> 0"
  shows "\<exists>r s'. usci_transfer tx ifg m rx env x s = Some (r, s') \<and>
           r = env (rd_count s + Suc K) (regs s') rx \<and>
           regs s' tx = x \<and>
           rd_count s' = rd_count s + K + 2 \<and>
           new_events s s' =
             [Wr tx x] @ map (\<lambda>k. Rd ifg (flag_at env ifg (wr tx x s) k)) [0..<Suc K] @ [Rd rx r]"
  unfolding usci_transfer_exact [OF assms]
  by (simp add: hw_rd_def Let_def polled_regs polled_rd_count polled_trace new_events_def wr_def
      del: polled.simps upt_Suc)

lemma spi_transfer_USI_exact:
  assumes "flag_at env USICNT (started USI x s) K AND 0x1F = 0"
    and "\<forall>j<K. \<not> flag_at env USICNT (started USI x s) j AND 0x1F = 0"
  shows "spi_transfer_USI env x s =
           Some (hw_rd env USISRL (and_assign USICTL1 (NOT USIIE)
             (polled env USICNT (Suc K) (started USI x s))))"
  using poll_until_Some [of "\<lambda>v. v AND 0x1F = 0" env USICNT "started USI x s" K] assms
  by (simp add: spi_transfer_USI_def started_def Let_def del: polled.simps)

lemma spi_transfer_USI_log:
  assumes "flag_at env USICNT (started USI x s) K AND 0x1F = 0"
    and "\<forall>j<K. \<not> flag_at env USICNT (started USI x s) j AND 0x1F = 0"
  shows "\<exists>r s'. spi_transfer_USI env x s = Some (r, s') \<and>
           r = env (rd_count s + Suc K) (regs s') USISRL \<and>
           regs s' USISRL = x \<and>
           rd_count s' = rd_count s + K + 2 \<and>
           new_events s s' =
             [Wr USICTL1 (regs s USICTL1 OR USIIE), Wr USISRL x, Wr USICNT 8] @
             map (\<lambda>k. Rd USICNT (flag_at env USICNT (started USI x s) k)) [0..<Suc K] @
             [Wr USICTL1 ((regs s USICTL1 OR USIIE) AND NOT USIIE), Rd USISRL r]"
  unfolding spi_transfer_USI_exact [OF assms]
  by (simp add: hw_rd_def Let_def polled_regs polled_rd_count polled_trace new_events_def wr_def
      started_def and_assign_def or_assign_def del: polled.simps upt_Suc)

text \<open>
  Claim C7. When some read of the flag register, after the byte was handed over, finds the
  transfer complete, \<^verbatim>\<open>spi_transfer\<close> returns. With \<open>K\<close> the first such read, the call writes \<open>inb\<close>
  to the transmit register (on the USI between enabling the interrupt and starting the bit
  counter), reads the flag register \<open>K + 1\<close> times (on the USI it then disables the interrupt),
  reads the receive register once, and returns what the hardware answers to that read, in a
  register file whose transmit register holds \<open>inb\<close>. These are all its accesses. When no read
  ever finds the transfer complete, the call never returns.
\<close>

theorem spi_transfer_terminates:
  "((\<exists>k. rx_complete b (flag_at env (flag_reg b) (started b inb s) k)) \<longrightarrow>
      (\<exists>K r s'.
         rx_complete b (flag_at env (flag_reg b) (started b inb s) K) \<and>
         (\<forall>j<K. \<not> rx_complete b (flag_at env (flag_reg b) (started b inb s) j)) \<and>
         spi_transfer b env inb s = Some (r, s') \<and>
         r = env (rd_count s + Suc K) (regs s') (rxbuf b) \<and>
         regs s' (txbuf b) = inb \<and>
         rd_count s' = rd_count s + K + 2 \<and>
         new_events s s' =
           (if b = USI then [Wr USICTL1 (regs s USICTL1 OR USIIE)] else []) @
           [Wr (txbuf b) inb] @
           (if b = USI then [Wr USICNT 8] else []) @
           map (\<lambda>k. Rd (flag_reg b) (flag_at env (flag_reg b) (started b inb s) k)) [0..<Suc K] @
           (if b = USI then [Wr USICTL1 ((regs s USICTL1 OR USIIE) AND NOT USIIE)] else []) @
           [Rd (rxbuf b) r])) \<and>
   ((\<forall>k. \<not> rx_complete b (flag_at env (flag_reg b) (started b inb s) k)) \<longrightarrow>
      spi_transfer b env inb s = None)"
proof (intro conjI impI)
  assume "\<exists>k. rx_complete b (flag_at env (flag_reg b) (started b inb s) k)"
  then obtain K where K: "rx_complete b (flag_at env (flag_reg b) (started b inb s) K)"
    and least: "\<forall>j<K. \<not> rx_complete b (flag_at env (flag_reg b) (started b inb s) j)"
    using least_complete [of "\<lambda>k. rx_complete b (flag_at env (flag_reg b) (started b inb s) k)"]
    by blast
  have "\<exists>r s'. spi_transfer b env inb s = Some (r, s') \<and>
         r = env (rd_count s + Suc K) (regs s') (rxbuf b) \<and>
         regs s' (txbuf b) = inb \<and>
         rd_count s' = rd_count s + K + 2 \<and>
         new_events s s' =
           (if b = USI then [Wr USICTL1 (regs s USICTL1 OR USIIE)] else []) @
           [Wr (txbuf b) inb] @
           (if b = USI then [Wr USICNT 8] else []) @
           map (\<lambda>k. Rd (flag_reg b) (flag_at env (flag_reg b) (started b inb s) k)) [0..<Suc K] @
           (if b = USI then [Wr USICTL1 ((regs s USICTL1 OR USIIE) AND NOT USIIE)] else []) @
           [Rd (rxbuf b) r]"
  proof (cases b)
    case USI
    with K least show ?thesis
      using spi_transfer_USI_log [of env inb s K] by (simp del: upt_Suc)
  next
    case USCI_A
    with K least show ?thesis
      using usci_transfer_log [of env IFG2 UCA0TXBUF inb s K UCA0RXIFG UCA0RXBUF]
      by (simp add: spi_transfer_defs started_def del: upt_Suc)
  next
    case USCI_B
    with K least show ?thesis
      using usci_transfer_log [of env IFG2 UCB0TXBUF inb s K UCB0RXIFG UCB0RXBUF]
      by (simp add: spi_transfer_defs started_def del: upt_Suc)
  next
    case USCI_A_TB3
    with K least show ?thesis
      using usci_transfer_log [of env IFG2 UCA0TXBUF inb s K UCA0RXIFG UCA0RXBUF]
      by (simp add: spi_transfer_defs started_def del: upt_Suc)
  next
    case USCI_B_TB3
    with K least show ?thesis
      using usci_transfer_log [of env IFG2 UCB0TXBUF inb s K UCB0RXIFG UCB0RXBUF]
      by (simp add: spi_transfer_defs started_def del: upt_Suc)
  next
    case F5_USCI_A_F5172
    with K least show ?thesis
      using usci_transfer_log [of env UCA0IFG UCA0TXBUF inb s K UCRXIFG UCA0RXBUF]
      by (simp add: spi_transfer_defs started_def del: upt_Suc)
  next
    case F5_USCI_A_F5529
    with K least show ?thesis
      using usci_transfer_log [of env UCA0IFG UCA0TXBUF inb s K UCRXIFG UCA0RXBUF]
      by (simp add: spi_transfer_defs started_def del: upt_Suc)
  next
    case F5_USCI_B_F5172
    with K least show ?thesis
      using usci_transfer_log [of env UCB0IFG UCB0TXBUF inb s K UCRXIFG UCB0RXBUF]
      by (simp add: spi_transfer_defs started_def del: upt_Suc)
  next
    case F5_USCI_B_F5529
    with K least show ?thesis
      using usci_transfer_log [of env UCB0IFG UCB0TXBUF inb s K UCRXIFG UCB0RXBUF]
      by (simp add: spi_transfer_defs started_def del: upt_Suc)
  qed
  with K least show "\<exists>K r s'.
         rx_complete b (flag_at env (flag_reg b) (started b inb s) K) \<and>
         (\<forall>j<K. \<not> rx_complete b (flag_at env (flag_reg b) (started b inb s) j)) \<and>
         spi_transfer b env inb s = Some (r, s') \<and>
         r = env (rd_count s + Suc K) (regs s') (rxbuf b) \<and>
         regs s' (txbuf b) = inb \<and>
         rd_count s' = rd_count s + K + 2 \<and>
         new_events s s' =
           (if b = USI then [Wr USICTL1 (regs s USICTL1 OR USIIE)] else []) @
           [Wr (txbuf b) inb] @
           (if b = USI then [Wr USICNT 8] else []) @
           map (\<lambda>k. Rd (flag_reg b) (flag_at env (flag_reg b) (started b inb s) k)) [0..<Suc K] @
           (if b = USI then [Wr USICTL1 ((regs s USICTL1 OR USIIE) AND NOT USIIE)] else []) @
           [Rd (rxbuf b) r]"
    by blast
next
  assume none: "\<forall>k. \<not> rx_complete b (flag_at env (flag_reg b) (started b inb s) k)"
  show "spi_transfer b env inb s = None"
  proof (cases "b = USI")
    case True
    with none show ?thesis
      by (simp add: spi_transfer_USI_eq)
  next
    case False
    with none show ?thesis
      by (cases b) (simp_all add: spi_transfer_defs usci_transfer_eq started_def)
  qed
qed

theorem spi_transfer_terminates_witness:
  "(\<exists>s'. spi_transfer USCI_A env_slow 0xA5 reset_state = Some (0x3C, s') \<and>
      new_events reset_state s' =
        [Wr UCA0TXBUF 0xA5, Rd IFG2 0, Rd IFG2 0, Rd IFG2 1, Rd UCA0RXBUF 0x3C]) \<and>
   spi_transfer USI (env_const 0x08) 0xA5 reset_state = None"
proof
  have c: "\<And>k. rx_complete USCI_A (flag_at env_slow (flag_reg USCI_A) (started USCI_A 0xA5 reset_state) k) = (2 \<le> k)"
    by (simp add: flag_at_def env_slow_def flag_defs reset_state_def started_def wr_def)
  have "\<exists>k. rx_complete USCI_A (flag_at env_slow (flag_reg USCI_A) (started USCI_A 0xA5 reset_state) k)"
    unfolding c by (rule exI [of _ 2]) simp
  then obtain K r s' where K: "2 \<le> K" and least: "\<forall>j<K. \<not> 2 \<le> j"
    and run: "spi_transfer USCI_A env_slow 0xA5 reset_state = Some (r, s')"
    and r: "r = env_slow (rd_count reset_state + Suc K) (regs s') (rxbuf USCI_A)"
    and log: "new_events reset_state s' =
           (if USCI_A = USI then [Wr USICTL1 (regs reset_state USICTL1 OR USIIE)] else []) @
           [Wr (txbuf USCI_A) 0xA5] @
           (if USCI_A = USI then [Wr USICNT 8] else []) @
           map (\<lambda>k. Rd (flag_reg USCI_A) (flag_at env_slow (flag_reg USCI_A) (started USCI_A 0xA5 reset_state) k)) [0..<Suc K] @
           (if USCI_A = USI then [Wr USICTL1 ((regs reset_state USICTL1 OR USIIE) AND NOT USIIE)] else []) @
           [Rd (rxbuf USCI_A) r]"
    using spi_transfer_terminates [of USCI_A env_slow "0xA5" reset_state] unfolding c by blast
  have K2: "K = 2"
    using K least by (meson le_refl not_le_imp_less order_antisym)
  from r have r': "r = 0x3C"
    by (simp add: env_slow_def)
  have "[0..<Suc 2] = [0, 1, 2]"
    by (simp add: upt_rec)
  with log K2 r' have "new_events reset_state s' =
        [Wr UCA0TXBUF 0xA5, Rd IFG2 0, Rd IFG2 0, Rd IFG2 1, Rd UCA0RXBUF 0x3C]"
    by (simp add: flag_at_def env_slow_def flag_defs reset_state_def started_def wr_def del: upt_Suc)
  with run r' show "\<exists>s'. spi_transfer USCI_A env_slow 0xA5 reset_state = Some (0x3C, s') \<and>
      new_events reset_state s' =
        [Wr UCA0TXBUF 0xA5, Rd IFG2 0, Rd IFG2 0, Rd IFG2 1, Rd UCA0RXBUF 0x3C]"
    by blast
next
  show "spi_transfer USI (env_const 0x08) 0xA5 reset_state = None"
    using spi_transfer_terminates [of USI "env_const 0x08" "0xA5" reset_state]
    by (simp add: flag_at_def env_const_def)
qed

section \<open>Running the 9-bit transfer\<close>

lemma polled_trace_reads:
  "\<exists>evs. trace (polled env r n s) = trace s @ evs \<and> list_all (is_rd_of [r]) evs"
  by (simp add: polled_trace list_all_iff)

lemma usci_transfer_shape:
  assumes "usci_transfer tx ifg m rx env x s = Some (r, s')"
  shows "regs s' = (regs s)(tx := x) \<and>
         (\<exists>evs. trace s' = trace s @ Wr tx x # evs \<and> list_all (is_rd_of [ifg, rx]) evs)"
proof -
  from assms have "\<exists>n. hw_rd env rx (polled env ifg n (wr tx x s)) = (r, s')"
    by (simp add: usci_transfer_eq del: polled.simps split: if_splits) (rule exI)
  then obtain n where "hw_rd env rx (polled env ifg n (wr tx x s)) = (r, s')" ..
  then have s': "s' = snd (hw_rd env rx (polled env ifg n (wr tx x s)))"
    and r: "r = fst (hw_rd env rx (polled env ifg n (wr tx x s)))"
    by simp_all
  have "regs s' = (regs s)(tx := x)"
    by (simp add: s' hw_rd_def Let_def polled_regs wr_def)
  moreover have "\<exists>evs. trace s' = trace s @ Wr tx x # evs \<and> list_all (is_rd_of [ifg, rx]) evs"
    using r by (simp add: s' hw_rd_def Let_def polled_trace wr_def list_all_iff)
  ultimately show ?thesis by simp
qed

lemma usci_transfer_value:
  assumes "usci_transfer tx ifg m rx env x s = Some (rb, s')"
  shows "\<exists>n. rb = env n ((regs s)(tx := x)) rx"
proof -
  from assms have "\<exists>n. hw_rd env rx (polled env ifg n (wr tx x s)) = (rb, s')"
    by (simp add: usci_transfer_eq del: polled.simps split: if_splits) (rule exI)
  then obtain n where "hw_rd env rx (polled env ifg n (wr tx x s)) = (rb, s')" ..
  then have "rb = env (rd_count (polled env ifg n (wr tx x s))) ((regs s)(tx := x)) rx"
    by (simp add: hw_rd_def Let_def polled_regs wr_def)
  then show ?thesis ..
qed

lemma usci_transfer_returns:
  assumes "\<forall>n rf. \<exists>k. env (n + k) rf ifg AND m \<noteq> 0"
  shows "\<exists>rb s1. usci_transfer tx ifg m rx env x s = Some (rb, s1)"
proof -
  have "\<exists>k. flag_at env ifg (wr tx x s) k AND m \<noteq> 0"
    using assms by (simp add: flag_at_def)
  then show ?thesis
    by (simp add: usci_transfer_eq del: polled.simps)
qed

lemma wr_rec: "wr r v \<lparr>regs = f, rd_count = n, trace = t\<rparr> = \<lparr>regs = f(r := v), rd_count = n, trace = t @ [Wr r v]\<rparr>"
  by (simp add: wr_def)

lemma and_rec: "and_assign r v \<lparr>regs = f, rd_count = n, trace = t\<rparr> = \<lparr>regs = f(r := f r AND v), rd_count = n, trace = t @ [Wr r (f r AND v)]\<rparr>"
  by (simp add: wr_def and_assign_def)

lemma or_rec: "or_assign r v \<lparr>regs = f, rd_count = n, trace = t\<rparr> = \<lparr>regs = f(r := f r OR v), rd_count = n, trace = t @ [Wr r (f r OR v)]\<rparr>"
  by (simp add: wr_def or_assign_def)

lemma rd_rec: "hw_rd env r \<lparr>regs = f, rd_count = n, trace = t\<rparr> = (env n f r, \<lparr>regs = f, rd_count = Suc n, trace = t @ [Rd r (env n f r)]\<rparr>)"
  by (simp add: hw_rd_def Let_def)

lemmas exec_simps = wr_rec and_rec or_rec rd_rec mstate.simps split_conv if_False if_True simp_thms
  fun_upd_apply reg.simps append_assoc append_Cons append_Nil

lemma writes_to_reads: "list_all (is_rd_of rs) evs \<Longrightarrow> writes_to r evs = []"
  by (induction evs rule: writes_to.induct) simp_all

lemma writes_to_append: "writes_to r (xs @ ys) = writes_to r xs @ writes_to r ys"
  by (induction xs rule: writes_to.induct) simp_all

lemma transfer9_tail:
  assumes "(case usci_transfer tx ifg m rx env x \<lparr>regs = F, rd_count = c, trace = t @ pre\<rparr> of
              None \<Rightarrow> None | Some (rb, s1) \<Rightarrow> Some (w OR ucast rb, s1)) = Some (r, s')"
  shows "\<exists>(rb :: u8) evs. r = w OR ucast rb \<and> regs s' = F(tx := x) \<and>
           trace s' = t @ pre @ Wr tx x # evs \<and> list_all (is_rd_of [ifg, rx]) evs"
proof -
  from assms obtain rb where
    u: "usci_transfer tx ifg m rx env x \<lparr>regs = F, rd_count = c, trace = t @ pre\<rparr> = Some (rb, s')"
    and r: "r = w OR ucast rb"
    by (auto split: option.splits)
  from usci_transfer_shape [OF u] obtain evs where
    "regs s' = F(tx := x)" "trace s' = t @ pre @ Wr tx x # evs" "list_all (is_rd_of [ifg, rx]) evs"
    by auto
  with r show ?thesis by blast
qed

lemma transfer9_tail_returns:
  fixes w :: u16
  assumes "\<exists>rb s1. usci_transfer tx ifg m rx env x S = Some (rb, s1)"
  shows "\<exists>r s'. (case usci_transfer tx ifg m rx env x S of
                    None \<Rightarrow> None | Some (rb, s1) \<Rightarrow> Some (w OR ucast rb, s1)) = Some (r, s')"
  using assms by auto

lemma transfer9_tail_echo:
  fixes w :: u16
  assumes "(case usci_transfer tx ifg m rx env x \<lparr>regs = F, rd_count = c, trace = t\<rparr> of
              None \<Rightarrow> None | Some (rb, s1) \<Rightarrow> Some (w OR ucast rb, s1)) = Some (r, s')"
    and "\<forall>n rf. env n rf rx = rf tx"
  shows "r = w OR ucast x"
proof -
  from assms(1) obtain rb where
    u: "usci_transfer tx ifg m rx env x \<lparr>regs = F, rd_count = c, trace = t\<rparr> = Some (rb, s')"
    and r: "r = w OR ucast rb"
    by (auto split: option.splits)
  from usci_transfer_value [OF u] assms(2) have "rb = x"
    by auto
  with r show ?thesis by simp
qed

lemma returns_USCI_A:
  assumes "completes USCI_A env"
  shows "\<exists>r s'. spi_transfer9_USCI_A env inw s = Some (r, s')"
  using assms
  apply (cases s; cases "inw AND 0x0100 = 0"; hypsubst)
  unfolding spi_transfer9_USCI_A_def spi_transfer_USCI_A_def Let_def
   apply (simp_all only: exec_simps)
   apply (rule transfer9_tail_returns, rule usci_transfer_returns, simp add: completes_def)+
  done

lemma returns_USCI_B:
  assumes "completes USCI_B env"
  shows "\<exists>r s'. spi_transfer9_USCI_B env inw s = Some (r, s')"
  using assms
  apply (cases s; cases "inw AND 0x0100 = 0"; hypsubst)
  unfolding spi_transfer9_USCI_B_def spi_transfer_USCI_B_def Let_def
   apply (simp_all only: exec_simps)
   apply (rule transfer9_tail_returns, rule usci_transfer_returns, simp add: completes_def)+
  done

lemma returns_USCI_A_TB3:
  assumes "completes USCI_A_TB3 env"
  shows "\<exists>r s'. spi_transfer9_USCI_A_TB3 env inw s = Some (r, s')"
  using assms
  apply (cases s; cases "inw AND 0x0100 = 0"; hypsubst)
  unfolding spi_transfer9_USCI_A_TB3_def spi_transfer_USCI_A_def Let_def
   apply (simp_all only: exec_simps)
   apply (rule transfer9_tail_returns, rule usci_transfer_returns, simp add: completes_def)+
  done

lemma returns_USCI_B_TB3:
  assumes "completes USCI_B_TB3 env"
  shows "\<exists>r s'. spi_transfer9_USCI_B_TB3 env inw s = Some (r, s')"
  using assms
  apply (cases s; cases "inw AND 0x0100 = 0"; hypsubst)
  unfolding spi_transfer9_USCI_B_TB3_def spi_transfer_USCI_B_def Let_def
   apply (simp_all only: exec_simps)
   apply (rule transfer9_tail_returns, rule usci_transfer_returns, simp add: completes_def)+
  done

lemma returns_F5_USCI_A_F5172:
  assumes "completes F5_USCI_A_F5172 env"
  shows "\<exists>r s'. spi_transfer9_F5_USCI_A_F5172 env inw s = Some (r, s')"
  using assms
  apply (cases s; cases "inw AND 0x0100 = 0"; hypsubst)
  unfolding spi_transfer9_F5_USCI_A_F5172_def spi_transfer_F5_USCI_A_def Let_def
   apply (simp_all only: exec_simps)
   apply (rule transfer9_tail_returns, rule usci_transfer_returns, simp add: completes_def)+
  done

lemma returns_F5_USCI_A_F5529:
  assumes "completes F5_USCI_A_F5529 env"
  shows "\<exists>r s'. spi_transfer9_F5_USCI_A_F5529 env inw s = Some (r, s')"
  using assms
  apply (cases s; cases "inw AND 0x0100 = 0"; hypsubst)
  unfolding spi_transfer9_F5_USCI_A_F5529_def spi_transfer_F5_USCI_A_def Let_def
   apply (simp_all only: exec_simps)
   apply (rule transfer9_tail_returns, rule usci_transfer_returns, simp add: completes_def)+
  done

lemma returns_F5_USCI_B_F5172:
  assumes "completes F5_USCI_B_F5172 env"
  shows "\<exists>r s'. spi_transfer9_F5_USCI_B_F5172 env inw s = Some (r, s')"
  using assms
  apply (cases s; cases "inw AND 0x0100 = 0"; hypsubst)
  unfolding spi_transfer9_F5_USCI_B_F5172_def spi_transfer_F5_USCI_B_def Let_def
   apply (simp_all only: exec_simps)
   apply (rule transfer9_tail_returns, rule usci_transfer_returns, simp add: completes_def)+
  done

lemma returns_F5_USCI_B_F5529:
  assumes "completes F5_USCI_B_F5529 env"
  shows "\<exists>r s'. spi_transfer9_F5_USCI_B_F5529 env inw s = Some (r, s')"
  using assms
  apply (cases s; cases "inw AND 0x0100 = 0"; hypsubst)
  unfolding spi_transfer9_F5_USCI_B_F5529_def spi_transfer_F5_USCI_B_def Let_def
   apply (simp_all only: exec_simps)
   apply (rule transfer9_tail_returns, rule usci_transfer_returns, simp add: completes_def)+
  done

lemma transfer9_returns:
  assumes "bitbang b" and "completes b env"
  shows "\<exists>r s'. spi_transfer9 b env inw s = Some (r, s')"
proof (cases b)
  case USI
  with assms show ?thesis by (simp add: bitbang_def)
next
  case USCI_A
  with assms show ?thesis using returns_USCI_A [of env inw s] by (simp)
next
  case USCI_B
  with assms show ?thesis using returns_USCI_B [of env inw s] by (simp)
next
  case USCI_A_TB3
  with assms show ?thesis using returns_USCI_A_TB3 [of env inw s] by (simp)
next
  case USCI_B_TB3
  with assms show ?thesis using returns_USCI_B_TB3 [of env inw s] by (simp)
next
  case F5_USCI_A_F5172
  with assms show ?thesis using returns_F5_USCI_A_F5172 [of env inw s] by (simp)
next
  case F5_USCI_A_F5529
  with assms show ?thesis using returns_F5_USCI_A_F5529 [of env inw s] by (simp)
next
  case F5_USCI_B_F5172
  with assms show ?thesis using returns_F5_USCI_B_F5172 [of env inw s] by (simp)
next
  case F5_USCI_B_F5529
  with assms show ?thesis using returns_F5_USCI_B_F5529 [of env inw s] by (simp)
qed

lemma completes_env_const: "b \<noteq> USI \<Longrightarrow> completes b (env_const 0xFF)"
  by (cases b) (simp_all add: completes_def env_const_def flag_defs)

section \<open>The pins are restored before the 8-bit transfer\<close>

lemma restores_USCI_A:
  assumes "spi_transfer9_USCI_A env inw s = Some (r, s')"
  shows "restored USCI_A (regs s) (regs s') \<and> restored USCI_A (regs s) (replay (takeWhile (\<lambda>e. \<not> is_wr_to (txbuf USCI_A) e) (new_events s s')) (regs s)) \<and> writes_to (txbuf USCI_A) (new_events s s') = [ucast (inw AND 0x00FF)]"
  using assms
  apply (cases s; cases "inw AND 0x0100 = 0"; hypsubst)
  unfolding spi_transfer9_USCI_A_def spi_transfer_USCI_A_def Let_def
   apply (simp_all only: exec_simps)
   apply (drule transfer9_tail; clarsimp simp add: new_events_def restored_def port_state_def peripheral_role_def spi_pins_def replay_def writes_to_reads bit_simps BIT_defs)+
  done

lemma restores_USCI_B:
  assumes "spi_transfer9_USCI_B env inw s = Some (r, s')"
  shows "restored USCI_B (regs s) (regs s') \<and> restored USCI_B (regs s) (replay (takeWhile (\<lambda>e. \<not> is_wr_to (txbuf USCI_B) e) (new_events s s')) (regs s)) \<and> writes_to (txbuf USCI_B) (new_events s s') = [ucast (inw AND 0x00FF)]"
  using assms
  apply (cases s; cases "inw AND 0x0100 = 0"; hypsubst)
  unfolding spi_transfer9_USCI_B_def spi_transfer_USCI_B_def Let_def
   apply (simp_all only: exec_simps)
   apply (drule transfer9_tail; clarsimp simp add: new_events_def restored_def port_state_def peripheral_role_def spi_pins_def replay_def writes_to_reads bit_simps BIT_defs)+
  done

lemma restores_USCI_A_TB3:
  assumes "spi_transfer9_USCI_A_TB3 env inw s = Some (r, s')"
  shows "restored USCI_A_TB3 (regs s) (regs s') \<and> restored USCI_A_TB3 (regs s) (replay (takeWhile (\<lambda>e. \<not> is_wr_to (txbuf USCI_A_TB3) e) (new_events s s')) (regs s)) \<and> writes_to (txbuf USCI_A_TB3) (new_events s s') = [ucast (inw AND 0x00FF)]"
  using assms
  apply (cases s; cases "inw AND 0x0100 = 0"; hypsubst)
  unfolding spi_transfer9_USCI_A_TB3_def spi_transfer_USCI_A_def Let_def
   apply (simp_all only: exec_simps)
   apply (drule transfer9_tail; clarsimp simp add: new_events_def restored_def port_state_def peripheral_role_def spi_pins_def replay_def writes_to_reads bit_simps BIT_defs)+
  done

lemma restores_USCI_B_TB3:
  assumes "spi_transfer9_USCI_B_TB3 env inw s = Some (r, s')"
  shows "restored USCI_B_TB3 (regs s) (regs s') \<and> restored USCI_B_TB3 (regs s) (replay (takeWhile (\<lambda>e. \<not> is_wr_to (txbuf USCI_B_TB3) e) (new_events s s')) (regs s)) \<and> writes_to (txbuf USCI_B_TB3) (new_events s s') = [ucast (inw AND 0x00FF)]"
  using assms
  apply (cases s; cases "inw AND 0x0100 = 0"; hypsubst)
  unfolding spi_transfer9_USCI_B_TB3_def spi_transfer_USCI_B_def Let_def
   apply (simp_all only: exec_simps)
   apply (drule transfer9_tail; clarsimp simp add: new_events_def restored_def port_state_def peripheral_role_def spi_pins_def replay_def writes_to_reads bit_simps BIT_defs)+
  done

lemma restores_F5_USCI_A_F5172:
  assumes "spi_transfer9_F5_USCI_A_F5172 env inw s = Some (r, s')"
  shows "restored F5_USCI_A_F5172 (regs s) (regs s') \<and> restored F5_USCI_A_F5172 (regs s) (replay (takeWhile (\<lambda>e. \<not> is_wr_to (txbuf F5_USCI_A_F5172) e) (new_events s s')) (regs s)) \<and> writes_to (txbuf F5_USCI_A_F5172) (new_events s s') = [ucast (inw AND 0x00FF)]"
  using assms
  apply (cases s; cases "inw AND 0x0100 = 0"; hypsubst)
  unfolding spi_transfer9_F5_USCI_A_F5172_def spi_transfer_F5_USCI_A_def Let_def
   apply (simp_all only: exec_simps)
   apply (drule transfer9_tail; clarsimp simp add: new_events_def restored_def port_state_def peripheral_role_def spi_pins_def replay_def writes_to_reads bit_simps BIT_defs)+
  done

lemma restores_F5_USCI_A_F5529:
  assumes "spi_transfer9_F5_USCI_A_F5529 env inw s = Some (r, s')"
  shows "restored F5_USCI_A_F5529 (regs s) (regs s') \<and> restored F5_USCI_A_F5529 (regs s) (replay (takeWhile (\<lambda>e. \<not> is_wr_to (txbuf F5_USCI_A_F5529) e) (new_events s s')) (regs s)) \<and> writes_to (txbuf F5_USCI_A_F5529) (new_events s s') = [ucast (inw AND 0x00FF)]"
  using assms
  apply (cases s; cases "inw AND 0x0100 = 0"; hypsubst)
  unfolding spi_transfer9_F5_USCI_A_F5529_def spi_transfer_F5_USCI_A_def Let_def
   apply (simp_all only: exec_simps)
   apply (drule transfer9_tail; clarsimp simp add: new_events_def restored_def port_state_def peripheral_role_def spi_pins_def replay_def writes_to_reads bit_simps BIT_defs)+
  done

lemma restores_F5_USCI_B_F5172:
  assumes "spi_transfer9_F5_USCI_B_F5172 env inw s = Some (r, s')"
  shows "restored F5_USCI_B_F5172 (regs s) (regs s') \<and> restored F5_USCI_B_F5172 (regs s) (replay (takeWhile (\<lambda>e. \<not> is_wr_to (txbuf F5_USCI_B_F5172) e) (new_events s s')) (regs s)) \<and> writes_to (txbuf F5_USCI_B_F5172) (new_events s s') = [ucast (inw AND 0x00FF)]"
  using assms
  apply (cases s; cases "inw AND 0x0100 = 0"; hypsubst)
  unfolding spi_transfer9_F5_USCI_B_F5172_def spi_transfer_F5_USCI_B_def Let_def
   apply (simp_all only: exec_simps)
   apply (drule transfer9_tail; clarsimp simp add: new_events_def restored_def port_state_def peripheral_role_def spi_pins_def replay_def writes_to_reads bit_simps BIT_defs)+
  done

lemma restores_F5_USCI_B_F5529:
  assumes "spi_transfer9_F5_USCI_B_F5529 env inw s = Some (r, s')"
  shows "restored F5_USCI_B_F5529 (regs s) (regs s') \<and> restored F5_USCI_B_F5529 (regs s) (replay (takeWhile (\<lambda>e. \<not> is_wr_to (txbuf F5_USCI_B_F5529) e) (new_events s s')) (regs s)) \<and> writes_to (txbuf F5_USCI_B_F5529) (new_events s s') = [ucast (inw AND 0x00FF)]"
  using assms
  apply (cases s; cases "inw AND 0x0100 = 0"; hypsubst)
  unfolding spi_transfer9_F5_USCI_B_F5529_def spi_transfer_F5_USCI_B_def Let_def
   apply (simp_all only: exec_simps)
   apply (drule transfer9_tail; clarsimp simp add: new_events_def restored_def port_state_def peripheral_role_def spi_pins_def replay_def writes_to_reads bit_simps BIT_defs)+
  done

text \<open>
  Claim C1. On every bit-banging backend and from every state, when \<^verbatim>\<open>spi_transfer9\<close> returns, the
  direction, output and pull-resistor registers of every port hold their values from before
  the call and the three pins are routed to the peripheral again. The same holds of the
  register file replayed up to the first write to the transmit buffer, so the restore precedes
  the 8-bit transfer; and the call writes the transmit buffer exactly once, with the low byte.
\<close>

theorem transfer9_restores_pins:
  assumes "bitbang b" and "spi_transfer9 b env inw s = Some (r, s')"
  shows "restored b (regs s) (regs s') \<and>
         restored b (regs s)
           (replay (takeWhile (\<lambda>e. \<not> is_wr_to (txbuf b) e) (new_events s s')) (regs s)) \<and>
         writes_to (txbuf b) (new_events s s') = [ucast (inw AND 0x00FF)]"
proof (cases b)
  case USI
  with assms show ?thesis by (simp add: bitbang_def)
next
  case USCI_A
  with assms show ?thesis using restores_USCI_A [of env inw s r s'] by (simp)
next
  case USCI_B
  with assms show ?thesis using restores_USCI_B [of env inw s r s'] by (simp)
next
  case USCI_A_TB3
  with assms show ?thesis using restores_USCI_A_TB3 [of env inw s r s'] by (simp)
next
  case USCI_B_TB3
  with assms show ?thesis using restores_USCI_B_TB3 [of env inw s r s'] by (simp)
next
  case F5_USCI_A_F5172
  with assms show ?thesis using restores_F5_USCI_A_F5172 [of env inw s r s'] by (simp)
next
  case F5_USCI_A_F5529
  with assms show ?thesis using restores_F5_USCI_A_F5529 [of env inw s r s'] by (simp)
next
  case F5_USCI_B_F5172
  with assms show ?thesis using restores_F5_USCI_B_F5172 [of env inw s r s'] by (simp)
next
  case F5_USCI_B_F5529
  with assms show ?thesis using restores_F5_USCI_B_F5529 [of env inw s r s'] by (simp)
qed

theorem transfer9_restores_pins_witness:
  "\<exists>r s'. spi_transfer9 USCI_A (env_const 0xFF) 0x1C3 reset_state = Some (r, s') \<and>
     restored USCI_A (regs reset_state) (regs s') \<and>
     restored USCI_A (regs reset_state)
       (replay (takeWhile (\<lambda>e. \<not> is_wr_to (txbuf USCI_A) e) (new_events reset_state s'))
         (regs reset_state)) \<and>
     writes_to (txbuf USCI_A) (new_events reset_state s') = [0xC3]"
proof -
  have b: "bitbang USCI_A"
    by (simp add: bitbang_def)
  obtain r s' where run: "spi_transfer9 USCI_A (env_const 0xFF) 0x1C3 reset_state = Some (r, s')"
    using transfer9_returns [OF b completes_env_const] by blast
  show ?thesis
    using transfer9_restores_pins [OF b run] run by simp
qed

section \<open>The result has nine bits\<close>

lemma bit_0x100: "bit (0x0100 :: u16) n = (n = 8)"
  using bit_exp_iff [where ?'a = u16, of 8 n] by auto

lemma bit_0xFE00: "bit (0xFE00 :: u16) n \<Longrightarrow> 9 \<le> n"
proof (rule ccontr)
  assume a: "bit (0xFE00 :: u16) n" and "\<not> 9 \<le> n"
  then consider "n = 0" | "n = 1" | "n = 2" | "n = 3" | "n = 4" | "n = 5" | "n = 6" | "n = 7" | "n = 8"
    by linarith
  then show False using a by cases simp_all
qed

lemma u16_upper_clear:
  fixes w :: u16
  assumes "\<And>n. 9 \<le> n \<Longrightarrow> \<not> bit w n"
  shows "w \<le> 0x1FF \<and> w AND 0xFE00 = 0"
proof -
  have "take_bit 9 w = w"
  proof (rule bit_eqI)
    fix n
    show "bit (take_bit 9 w) n = bit w n"
      using assms [of n] by (cases "n < 9") (auto simp add: bit_simps)
  qed
  then have "unat w = take_bit 9 (unat w)"
    by (metis unsigned_take_bit_eq)
  then have "unat w < 2 ^ 9"
    by (metis take_bit_nat_less_exp)
  then have a: "w \<le> 0x1FF"
    by (simp add: word_le_nat_alt)
  have "w AND 0xFE00 = 0"
  proof (rule bit_eqI)
    fix n
    show "bit (w AND 0xFE00) n = bit (0 :: u16) n"
      using assms [of n] bit_0xFE00 [of n] by (auto simp add: bit_simps)
  qed
  with a show ?thesis by simp
qed

lemma retw_bound:
  fixes rb :: u8
  shows "((if c then (0 :: u16) OR 0x0100 else 0) OR ucast rb) \<le> 0x1FF \<and>
         ((if c then (0 :: u16) OR 0x0100 else 0) OR ucast rb) AND 0xFE00 = 0"
proof (rule u16_upper_clear)
  fix n :: nat
  assume n: "9 \<le> n"
  show "\<not> bit ((if c then (0 :: u16) OR 0x0100 else 0) OR ucast rb) n"
    using n bit_0x100 [of n] by (auto simp add: bit_simps dest: bit_imp_le_length)
qed

lemma retw_bounds:
  fixes rb :: u8
  shows "(0x0100 :: u16) OR ucast rb \<le> 0x1FF" "(ucast rb :: u16) \<le> 0x1FF"
    "((0x0100 :: u16) OR ucast rb) AND 0xFE00 = 0" "(ucast rb :: u16) AND 0xFE00 = 0"
  using retw_bound [of True rb] retw_bound [of False rb] by simp_all

lemma bound_USCI_A:
  assumes "spi_transfer9_USCI_A env inw s = Some (r, s')"
  shows "r \<le> 0x1FF \<and> r AND 0xFE00 = 0"
  using assms
  apply (cases s; cases "inw AND 0x0100 = 0"; hypsubst)
  unfolding spi_transfer9_USCI_A_def spi_transfer_USCI_A_def Let_def
   apply (simp_all only: exec_simps)
   apply (drule transfer9_tail; clarsimp simp add: retw_bounds)+
  done

lemma bound_USCI_B:
  assumes "spi_transfer9_USCI_B env inw s = Some (r, s')"
  shows "r \<le> 0x1FF \<and> r AND 0xFE00 = 0"
  using assms
  apply (cases s; cases "inw AND 0x0100 = 0"; hypsubst)
  unfolding spi_transfer9_USCI_B_def spi_transfer_USCI_B_def Let_def
   apply (simp_all only: exec_simps)
   apply (drule transfer9_tail; clarsimp simp add: retw_bounds)+
  done

lemma bound_USCI_A_TB3:
  assumes "spi_transfer9_USCI_A_TB3 env inw s = Some (r, s')"
  shows "r \<le> 0x1FF \<and> r AND 0xFE00 = 0"
  using assms
  apply (cases s; cases "inw AND 0x0100 = 0"; hypsubst)
  unfolding spi_transfer9_USCI_A_TB3_def spi_transfer_USCI_A_def Let_def
   apply (simp_all only: exec_simps)
   apply (drule transfer9_tail; clarsimp simp add: retw_bounds)+
  done

lemma bound_USCI_B_TB3:
  assumes "spi_transfer9_USCI_B_TB3 env inw s = Some (r, s')"
  shows "r \<le> 0x1FF \<and> r AND 0xFE00 = 0"
  using assms
  apply (cases s; cases "inw AND 0x0100 = 0"; hypsubst)
  unfolding spi_transfer9_USCI_B_TB3_def spi_transfer_USCI_B_def Let_def
   apply (simp_all only: exec_simps)
   apply (drule transfer9_tail; clarsimp simp add: retw_bounds)+
  done

lemma bound_F5_USCI_A_F5172:
  assumes "spi_transfer9_F5_USCI_A_F5172 env inw s = Some (r, s')"
  shows "r \<le> 0x1FF \<and> r AND 0xFE00 = 0"
  using assms
  apply (cases s; cases "inw AND 0x0100 = 0"; hypsubst)
  unfolding spi_transfer9_F5_USCI_A_F5172_def spi_transfer_F5_USCI_A_def Let_def
   apply (simp_all only: exec_simps)
   apply (drule transfer9_tail; clarsimp simp add: retw_bounds)+
  done

lemma bound_F5_USCI_A_F5529:
  assumes "spi_transfer9_F5_USCI_A_F5529 env inw s = Some (r, s')"
  shows "r \<le> 0x1FF \<and> r AND 0xFE00 = 0"
  using assms
  apply (cases s; cases "inw AND 0x0100 = 0"; hypsubst)
  unfolding spi_transfer9_F5_USCI_A_F5529_def spi_transfer_F5_USCI_A_def Let_def
   apply (simp_all only: exec_simps)
   apply (drule transfer9_tail; clarsimp simp add: retw_bounds)+
  done

lemma bound_F5_USCI_B_F5172:
  assumes "spi_transfer9_F5_USCI_B_F5172 env inw s = Some (r, s')"
  shows "r \<le> 0x1FF \<and> r AND 0xFE00 = 0"
  using assms
  apply (cases s; cases "inw AND 0x0100 = 0"; hypsubst)
  unfolding spi_transfer9_F5_USCI_B_F5172_def spi_transfer_F5_USCI_B_def Let_def
   apply (simp_all only: exec_simps)
   apply (drule transfer9_tail; clarsimp simp add: retw_bounds)+
  done

lemma bound_F5_USCI_B_F5529:
  assumes "spi_transfer9_F5_USCI_B_F5529 env inw s = Some (r, s')"
  shows "r \<le> 0x1FF \<and> r AND 0xFE00 = 0"
  using assms
  apply (cases s; cases "inw AND 0x0100 = 0"; hypsubst)
  unfolding spi_transfer9_F5_USCI_B_F5529_def spi_transfer_F5_USCI_B_def Let_def
   apply (simp_all only: exec_simps)
   apply (drule transfer9_tail; clarsimp simp add: retw_bounds)+
  done

text \<open>
  Claim C10. On every USCI backend, whatever the data-in pin and the receive buffer deliver, a
  value returned by \<^verbatim>\<open>spi_transfer9\<close> is at most \<open>0x1FF\<close>: bits 9 to 15 are zero.
\<close>

theorem transfer9_result_nine_bits:
  assumes "bitbang b" and "spi_transfer9 b env inw s = Some (r, s')"
  shows "r \<le> 0x1FF \<and> r AND 0xFE00 = 0"
proof (cases b)
  case USI
  with assms show ?thesis by (simp add: bitbang_def)
next
  case USCI_A
  with assms show ?thesis using bound_USCI_A [of env inw s r s'] by (simp)
next
  case USCI_B
  with assms show ?thesis using bound_USCI_B [of env inw s r s'] by (simp)
next
  case USCI_A_TB3
  with assms show ?thesis using bound_USCI_A_TB3 [of env inw s r s'] by (simp)
next
  case USCI_B_TB3
  with assms show ?thesis using bound_USCI_B_TB3 [of env inw s r s'] by (simp)
next
  case F5_USCI_A_F5172
  with assms show ?thesis using bound_F5_USCI_A_F5172 [of env inw s r s'] by (simp)
next
  case F5_USCI_A_F5529
  with assms show ?thesis using bound_F5_USCI_A_F5529 [of env inw s r s'] by (simp)
next
  case F5_USCI_B_F5172
  with assms show ?thesis using bound_F5_USCI_B_F5172 [of env inw s r s'] by (simp)
next
  case F5_USCI_B_F5529
  with assms show ?thesis using bound_F5_USCI_B_F5529 [of env inw s r s'] by (simp)
qed

theorem transfer9_result_nine_bits_witness:
  "\<exists>r s'. spi_transfer9 F5_USCI_B_F5529 (env_const 0xFF) 0xFFFF reset_state = Some (r, s') \<and>
     r \<le> 0x1FF \<and> r AND 0xFE00 = 0"
proof -
  have b: "bitbang F5_USCI_B_F5529"
    by (simp add: bitbang_def)
  obtain r s' where run:
    "spi_transfer9 F5_USCI_B_F5529 (env_const 0xFF) 0xFFFF reset_state = Some (r, s')"
    using transfer9_returns [OF b completes_env_const] by blast
  show ?thesis
    using transfer9_result_nine_bits [OF b run] run by simp
qed

section \<open>The manual clock pulse\<close>

text \<open>
  Claim C8, evaluated on the USCI_B backend of the F2xxx and G2xx3, called after \<^verbatim>\<open>spi_init\<close>.
  The lines move as the claim says: both brought low, data-out raised while the clock is low,
  the clock raised, port 1 read, the clock lowered, the pins handed back, the byte \<open>0xC3\<close>
  handed to the transmit buffer. But the level that reaches bit 8 of the result is the one of
  P1.4, not the one of the data-in pin P1.6 (line 214 tests \<^verbatim>\<open>P1IN & BIT4\<close>). With data-in high
  and P1.4 low at the read (\<^verbatim>\<open>P1IN\<close> reads \<open>0x40\<close>) the result is \<open>0x0C3\<close>; with data-in low and
  P1.4 high (\<^verbatim>\<open>P1IN\<close> reads \<open>0x14\<close>) bit 8 of the result is set.
\<close>

theorem usci_b_pulse_tests_p1_4:
  "map_option fst
     (spi_transfer9 USCI_B (env_wired USCI_B) 0x1C3 (spi_init USCI_B reset_state)) = Some 0x0C3 \<and>
   map_option (\<lambda>(r, s'). wire_trace USCI_B (regs (spi_init USCI_B reset_state))
       (new_events (spi_init USCI_B reset_state) s'))
     (spi_transfer9 USCI_B (env_wired USCI_B) 0x1C3 (spi_init USCI_B reset_state)) =
     Some [Lines Low Low, Lines High Low, Lines High High, Sample True, Lines High Low,
       Lines Released Released, HwTransfer 0xC3] \<and>
   map_option (\<lambda>(r, s'). reads_of P1IN (new_events (spi_init USCI_B reset_state) s'))
     (spi_transfer9 USCI_B (env_wired USCI_B) 0x1C3 (spi_init USCI_B reset_state)) = Some [0x40] \<and>
   map_option fst
     (spi_transfer9 USCI_B (env_const 0x14) 0x1C3 (spi_init USCI_B reset_state)) = Some 0x114 \<and>
   map_option (\<lambda>(r, s'). wire_trace USCI_B (regs (spi_init USCI_B reset_state))
       (new_events (spi_init USCI_B reset_state) s'))
     (spi_transfer9 USCI_B (env_const 0x14) 0x1C3 (spi_init USCI_B reset_state)) =
     Some [Lines Low Low, Lines High Low, Lines High High, Sample False, Lines High Low,
       Lines Released Released, HwTransfer 0xC3] \<and>
   map_option (\<lambda>(r, s'). reads_of P1IN (new_events (spi_init USCI_B reset_state) s'))
     (spi_transfer9 USCI_B (env_const 0x14) 0x1C3 (spi_init USCI_B reset_state)) = Some [0x14]"
  by (simp add: spi_transfer9_USCI_B_def spi_transfer_defs usci_transfer_now flag_at_def
      new_events_def env_wired_def env_const_def reset_state_def init_defs stmt_defs Let_def
      flag_defs BIT_defs bit_simps)

lemma and_bit_u8:
  fixes x :: u8
  shows "(x AND 1 = 0) = (\<not> bit x 0)" "(x AND 2 = 0) = (\<not> bit x 1)" "(x AND 4 = 0) = (\<not> bit x 2)"
    "(x AND 8 = 0) = (\<not> bit x 3)" "(x AND 16 = 0) = (\<not> bit x 4)" "(x AND 32 = 0) = (\<not> bit x 5)"
    "(x AND 64 = 0) = (\<not> bit x 6)" "(x AND 128 = 0) = (\<not> bit x 7)"
  using and_exp_eq_0_iff_not_bit [of x 0] and_exp_eq_0_iff_not_bit [of x 1]
    and_exp_eq_0_iff_not_bit [of x 2] and_exp_eq_0_iff_not_bit [of x 3]
    and_exp_eq_0_iff_not_bit [of x 4] and_exp_eq_0_iff_not_bit [of x 5]
    and_exp_eq_0_iff_not_bit [of x 6] and_exp_eq_0_iff_not_bit [of x 7]
  by simp_all

lemma wire_trace_append:
  "wire_trace b rf (xs @ ys) = wire_trace b rf xs @ wire_trace b (replay xs rf) ys"
  by (induction xs arbitrary: rf) (simp_all add: replay_def Let_def)

lemma wire_trace_reads:
  "list_all (is_rd_of rs) evs \<Longrightarrow> PxIN (fst (din_pin b)) \<notin> set rs \<Longrightarrow> wire_trace b rf evs = []"
proof (induction evs arbitrary: rf)
  case Nil
  show ?case by simp
next
  case (Cons e evs)
  then show ?case by (cases e) (auto simp add: Let_def)
qed

lemma low_byte_0x1C3: "(ucast ((0x1C3 :: u16) AND 0x00FF) :: u8) = 0xC3"
  by simp

lemma bit8_0x1C3: "((0x1C3 :: u16) AND 0x0100 \<noteq> 0) = True"
  by simp

lemma pulse_assemble:
  fixes w :: u16
  assumes q1: "list_all quiet (wire_trace b F (take k evs))"
    and core: "wire_trace b (replay (take k evs) F) (take 4 (drop k evs)) =
                 [Lines High Low, Lines High High, Sample (bit w 8), Lines High Low]"
    and q2: "list_all quiet (wire_trace b (replay (take (k + 4) evs) F) (drop (k + 4) evs))"
    and w: "w = 0 \<or> w = 0x0100"
    and tx: "tx = txbuf b"
    and rd: "PxIN (fst (din_pin b)) \<notin> set [ifg, rx]"
    and G: "G = replay evs F"
  shows "\<exists>evs' pre post lvl s1.
     trace s1 = t @ evs' \<and> regs s1 = replay evs' F \<and> rd_count s1 = n \<and>
     wire_trace b F evs' =
       pre @ [Lines High Low, Lines High High, Sample lvl, Lines High Low] @ post \<and>
     list_all quiet pre \<and> list_all quiet post \<and>
     (case usci_transfer tx ifg m rx env x \<lparr>regs = G, rd_count = n, trace = t @ evs\<rparr> of
        None \<Rightarrow> None
      | Some (rb, s') \<Rightarrow> Some (w OR ucast rb, s')) =
     (case usci_transfer tx ifg m rx env x s1 of
        None \<Rightarrow> None
      | Some (rb, s') \<Rightarrow> Some ((if lvl then 0x0100 else 0) OR ucast rb, s')) \<and>
     (\<forall>r s'. (case usci_transfer tx ifg m rx env x \<lparr>regs = G, rd_count = n, trace = t @ evs\<rparr> of
                None \<Rightarrow> None
              | Some (rb, s') \<Rightarrow> Some (w OR ucast rb, s')) = Some (r, s') \<longrightarrow>
        wire_trace b F (drop (length t) (trace s')) =
          pre @ [Lines High Low, Lines High High, Sample lvl, Lines High Low] @ post @
          [HwTransfer x])"
proof -
  define pre where "pre = wire_trace b F (take k evs)"
  define post where "post = wire_trace b (replay (take (k + 4) evs) F) (drop (k + 4) evs)"
  define s1 where "s1 = \<lparr>regs = G, rd_count = n, trace = t @ evs\<rparr>"
  have split: "evs = take k evs @ take 4 (drop k evs) @ drop (k + 4) evs"
    by (metis add.commute append_take_drop_id drop_drop)
  have rp: "replay (take k evs @ take 4 (drop k evs)) F = replay (take (k + 4) evs) F"
    by (simp add: take_add)
  have "wire_trace b F evs =
          wire_trace b F (take k evs) @
          wire_trace b (replay (take k evs) F) (take 4 (drop k evs)) @
          wire_trace b (replay (take k evs @ take 4 (drop k evs)) F) (drop (k + 4) evs)"
    by (subst split) (simp add: wire_trace_append replay_def del: append_take_drop_id)
  then have whole: "wire_trace b F evs =
      pre @ [Lines High Low, Lines High High, Sample (bit w 8), Lines High Low] @ post"
    unfolding rp core pre_def post_def .
  have ret: "wire_trace b F (drop (length t) (trace s')) =
          pre @ [Lines High Low, Lines High High, Sample (bit w 8), Lines High Low] @ post @
          [HwTransfer x]"
    if "(case usci_transfer tx ifg m rx env x s1 of
           None \<Rightarrow> None
         | Some (rb, s') \<Rightarrow> Some (w OR ucast rb, s')) = Some (r, s')" for r s'
  proof -
    from that obtain rb where u: "usci_transfer tx ifg m rx env x s1 = Some (rb, s')"
      by (auto split: option.splits)
    from usci_transfer_shape [OF u] obtain rds where
      tr: "trace s' = trace s1 @ Wr tx x # rds" and rds: "list_all (is_rd_of [ifg, rx]) rds"
      by auto
    have "drop (length t) (trace s') = evs @ Wr tx x # rds"
      by (simp add: tr s1_def)
    moreover have "wire_trace b (replay evs F) (Wr tx x # rds) = [HwTransfer x]"
      using wire_trace_reads [OF rds rd] by (simp add: tx Let_def)
    ultimately show ?thesis
      by (simp add: wire_trace_append whole)
  qed
  have "trace s1 = t @ evs" "regs s1 = replay evs F" "rd_count s1 = n"
    by (simp_all add: s1_def G)
  moreover note whole
  moreover have "list_all quiet pre" "list_all quiet post"
    using q1 q2 by (simp_all add: pre_def post_def)
  moreover have "(case usci_transfer tx ifg m rx env x s1 of
        None \<Rightarrow> None
      | Some (rb, s') \<Rightarrow> Some (w OR ucast rb, s')) =
     (case usci_transfer tx ifg m rx env x s1 of
        None \<Rightarrow> None
      | Some (rb, s') \<Rightarrow> Some ((if bit w 8 then 0x0100 else 0) OR ucast rb, s'))"
    using w bit_0x100 [of 8] by auto
  ultimately show ?thesis
    using ret unfolding s1_def by blast
qed

lemma pulse_USCI_A:
  "\<exists>evs pre post lvl s1.
     trace s1 = trace s @ evs \<and> regs s1 = replay evs (regs s) \<and>
     rd_count s1 = Suc (rd_count s) \<and>
     wire_trace USCI_A (regs s) evs =
       pre @ [Lines High Low, Lines High High, Sample lvl, Lines High Low] @ post \<and>
     list_all quiet pre \<and> list_all quiet post \<and>
     spi_transfer9_USCI_A env 0x1C3 s =
       (case spi_transfer_USCI_A env 0xC3 s1 of
          None \<Rightarrow> None
        | Some (rb, s') \<Rightarrow> Some ((if lvl then 0x0100 else 0) OR ucast rb, s')) \<and>
     (\<forall>r s'. spi_transfer9_USCI_A env 0x1C3 s = Some (r, s') \<longrightarrow>
        wire_trace USCI_A (regs s) (new_events s s') =
          pre @ [Lines High Low, Lines High High, Sample lvl, Lines High Low] @ post @
          [HwTransfer 0xC3])"
  apply (cases s; hypsubst)
  unfolding spi_transfer9_USCI_A_def spi_transfer_USCI_A_def new_events_def Let_def
  apply (simp only: exec_simps bit8_0x1C3 low_byte_0x1C3)
  apply (rule pulse_assemble [where k = 5, simplified append_Cons append_Nil])
        apply (simp add: Let_def BIT_defs bit_simps)
       apply (simp add: replay_def Let_def BIT_defs bit_simps and_bit_u8 bit_0x100)
      apply (simp add: replay_def Let_def BIT_defs bit_simps)
     apply simp
    apply simp
   apply simp
  apply (simp add: replay_def)
  done

lemma pulse_USCI_A_TB3:
  "\<exists>evs pre post lvl s1.
     trace s1 = trace s @ evs \<and> regs s1 = replay evs (regs s) \<and>
     rd_count s1 = Suc (rd_count s) \<and>
     wire_trace USCI_A_TB3 (regs s) evs =
       pre @ [Lines High Low, Lines High High, Sample lvl, Lines High Low] @ post \<and>
     list_all quiet pre \<and> list_all quiet post \<and>
     spi_transfer9_USCI_A_TB3 env 0x1C3 s =
       (case spi_transfer_USCI_A env 0xC3 s1 of
          None \<Rightarrow> None
        | Some (rb, s') \<Rightarrow> Some ((if lvl then 0x0100 else 0) OR ucast rb, s')) \<and>
     (\<forall>r s'. spi_transfer9_USCI_A_TB3 env 0x1C3 s = Some (r, s') \<longrightarrow>
        wire_trace USCI_A_TB3 (regs s) (new_events s s') =
          pre @ [Lines High Low, Lines High High, Sample lvl, Lines High Low] @ post @
          [HwTransfer 0xC3])"
  apply (cases s; hypsubst)
  unfolding spi_transfer9_USCI_A_TB3_def spi_transfer_USCI_A_def new_events_def Let_def
  apply (simp only: exec_simps bit8_0x1C3 low_byte_0x1C3)
  apply (rule pulse_assemble [where k = 5, simplified append_Cons append_Nil])
        apply (simp add: Let_def BIT_defs bit_simps)
       apply (simp add: replay_def Let_def BIT_defs bit_simps and_bit_u8 bit_0x100)
      apply (simp add: replay_def Let_def BIT_defs bit_simps)
     apply simp
    apply simp
   apply simp
  apply (simp add: replay_def)
  done

lemma pulse_USCI_B_TB3:
  "\<exists>evs pre post lvl s1.
     trace s1 = trace s @ evs \<and> regs s1 = replay evs (regs s) \<and>
     rd_count s1 = Suc (rd_count s) \<and>
     wire_trace USCI_B_TB3 (regs s) evs =
       pre @ [Lines High Low, Lines High High, Sample lvl, Lines High Low] @ post \<and>
     list_all quiet pre \<and> list_all quiet post \<and>
     spi_transfer9_USCI_B_TB3 env 0x1C3 s =
       (case spi_transfer_USCI_B env 0xC3 s1 of
          None \<Rightarrow> None
        | Some (rb, s') \<Rightarrow> Some ((if lvl then 0x0100 else 0) OR ucast rb, s')) \<and>
     (\<forall>r s'. spi_transfer9_USCI_B_TB3 env 0x1C3 s = Some (r, s') \<longrightarrow>
        wire_trace USCI_B_TB3 (regs s) (new_events s s') =
          pre @ [Lines High Low, Lines High High, Sample lvl, Lines High Low] @ post @
          [HwTransfer 0xC3])"
  apply (cases s; hypsubst)
  unfolding spi_transfer9_USCI_B_TB3_def spi_transfer_USCI_B_def new_events_def Let_def
  apply (simp only: exec_simps bit8_0x1C3 low_byte_0x1C3)
  apply (rule pulse_assemble [where k = 5, simplified append_Cons append_Nil])
        apply (simp add: Let_def BIT_defs bit_simps)
       apply (simp add: replay_def Let_def BIT_defs bit_simps and_bit_u8 bit_0x100)
      apply (simp add: replay_def Let_def BIT_defs bit_simps)
     apply simp
    apply simp
   apply simp
  apply (simp add: replay_def)
  done

lemma pulse_F5_USCI_A_F5172:
  "\<exists>evs pre post lvl s1.
     trace s1 = trace s @ evs \<and> regs s1 = replay evs (regs s) \<and>
     rd_count s1 = Suc (rd_count s) \<and>
     wire_trace F5_USCI_A_F5172 (regs s) evs =
       pre @ [Lines High Low, Lines High High, Sample lvl, Lines High Low] @ post \<and>
     list_all quiet pre \<and> list_all quiet post \<and>
     spi_transfer9_F5_USCI_A_F5172 env 0x1C3 s =
       (case spi_transfer_F5_USCI_A env 0xC3 s1 of
          None \<Rightarrow> None
        | Some (rb, s') \<Rightarrow> Some ((if lvl then 0x0100 else 0) OR ucast rb, s')) \<and>
     (\<forall>r s'. spi_transfer9_F5_USCI_A_F5172 env 0x1C3 s = Some (r, s') \<longrightarrow>
        wire_trace F5_USCI_A_F5172 (regs s) (new_events s s') =
          pre @ [Lines High Low, Lines High High, Sample lvl, Lines High Low] @ post @
          [HwTransfer 0xC3])"
  apply (cases s; hypsubst)
  unfolding spi_transfer9_F5_USCI_A_F5172_def spi_transfer_F5_USCI_A_def new_events_def Let_def
  apply (simp only: exec_simps bit8_0x1C3 low_byte_0x1C3)
  apply (rule pulse_assemble [where k = 4, simplified append_Cons append_Nil])
        apply (simp add: Let_def BIT_defs bit_simps)
       apply (simp add: replay_def Let_def BIT_defs bit_simps and_bit_u8 bit_0x100)
      apply (simp add: replay_def Let_def BIT_defs bit_simps)
     apply simp
    apply simp
   apply simp
  apply (simp add: replay_def)
  done

lemma pulse_F5_USCI_A_F5529:
  assumes "\<not> (line_level F5_USCI_A_F5529 (regs s) (dout_pin F5_USCI_A_F5529) = High \<and>
              line_level F5_USCI_A_F5529 (regs s) (clk_pin F5_USCI_A_F5529) = High)"
  shows "\<exists>evs pre post lvl s1.
     trace s1 = trace s @ evs \<and> regs s1 = replay evs (regs s) \<and>
     rd_count s1 = Suc (rd_count s) \<and>
     wire_trace F5_USCI_A_F5529 (regs s) evs =
       pre @ [Lines High Low, Lines High High, Sample lvl, Lines High Low] @ post \<and>
     list_all quiet pre \<and> list_all quiet post \<and>
     spi_transfer9_F5_USCI_A_F5529 env 0x1C3 s =
       (case spi_transfer_F5_USCI_A env 0xC3 s1 of
          None \<Rightarrow> None
        | Some (rb, s') \<Rightarrow> Some ((if lvl then 0x0100 else 0) OR ucast rb, s')) \<and>
     (\<forall>r s'. spi_transfer9_F5_USCI_A_F5529 env 0x1C3 s = Some (r, s') \<longrightarrow>
        wire_trace F5_USCI_A_F5529 (regs s) (new_events s s') =
          pre @ [Lines High Low, Lines High High, Sample lvl, Lines High Low] @ post @
          [HwTransfer 0xC3])"
  using assms
  apply (cases s; hypsubst)
  unfolding spi_transfer9_F5_USCI_A_F5529_def spi_transfer_F5_USCI_A_def new_events_def Let_def
  apply (simp only: exec_simps bit8_0x1C3 low_byte_0x1C3)
  apply (rule pulse_assemble [where k = 8, simplified append_Cons append_Nil])
        apply (auto simp add: Let_def BIT_defs bit_simps split: if_splits)[1]
       apply (simp add: replay_def Let_def BIT_defs bit_simps and_bit_u8 bit_0x100)
      apply (simp add: replay_def Let_def BIT_defs bit_simps)
     apply simp
    apply simp
   apply simp
  apply (simp add: replay_def)
  done

lemma pulse_F5_USCI_B_F5172:
  "\<exists>evs pre post lvl s1.
     trace s1 = trace s @ evs \<and> regs s1 = replay evs (regs s) \<and>
     rd_count s1 = Suc (rd_count s) \<and>
     wire_trace F5_USCI_B_F5172 (regs s) evs =
       pre @ [Lines High Low, Lines High High, Sample lvl, Lines High Low] @ post \<and>
     list_all quiet pre \<and> list_all quiet post \<and>
     spi_transfer9_F5_USCI_B_F5172 env 0x1C3 s =
       (case spi_transfer_F5_USCI_B env 0xC3 s1 of
          None \<Rightarrow> None
        | Some (rb, s') \<Rightarrow> Some ((if lvl then 0x0100 else 0) OR ucast rb, s')) \<and>
     (\<forall>r s'. spi_transfer9_F5_USCI_B_F5172 env 0x1C3 s = Some (r, s') \<longrightarrow>
        wire_trace F5_USCI_B_F5172 (regs s) (new_events s s') =
          pre @ [Lines High Low, Lines High High, Sample lvl, Lines High Low] @ post @
          [HwTransfer 0xC3])"
  apply (cases s; hypsubst)
  unfolding spi_transfer9_F5_USCI_B_F5172_def spi_transfer_F5_USCI_B_def new_events_def Let_def
  apply (simp only: exec_simps bit8_0x1C3 low_byte_0x1C3)
  apply (rule pulse_assemble [where k = 4, simplified append_Cons append_Nil])
        apply (simp add: Let_def BIT_defs bit_simps)
       apply (simp add: replay_def Let_def BIT_defs bit_simps and_bit_u8 bit_0x100)
      apply (simp add: replay_def Let_def BIT_defs bit_simps)
     apply simp
    apply simp
   apply simp
  apply (simp add: replay_def)
  done

lemma pulse_F5_USCI_B_F5529:
  "\<exists>evs pre post lvl s1.
     trace s1 = trace s @ evs \<and> regs s1 = replay evs (regs s) \<and>
     rd_count s1 = Suc (rd_count s) \<and>
     wire_trace F5_USCI_B_F5529 (regs s) evs =
       pre @ [Lines High Low, Lines High High, Sample lvl, Lines High Low] @ post \<and>
     list_all quiet pre \<and> list_all quiet post \<and>
     spi_transfer9_F5_USCI_B_F5529 env 0x1C3 s =
       (case spi_transfer_F5_USCI_B env 0xC3 s1 of
          None \<Rightarrow> None
        | Some (rb, s') \<Rightarrow> Some ((if lvl then 0x0100 else 0) OR ucast rb, s')) \<and>
     (\<forall>r s'. spi_transfer9_F5_USCI_B_F5529 env 0x1C3 s = Some (r, s') \<longrightarrow>
        wire_trace F5_USCI_B_F5529 (regs s) (new_events s s') =
          pre @ [Lines High Low, Lines High High, Sample lvl, Lines High Low] @ post @
          [HwTransfer 0xC3])"
  apply (cases s; hypsubst)
  unfolding spi_transfer9_F5_USCI_B_F5529_def spi_transfer_F5_USCI_B_def new_events_def Let_def
  apply (simp only: exec_simps bit8_0x1C3 low_byte_0x1C3)
  apply (rule pulse_assemble [where k = 4, simplified append_Cons append_Nil])
        apply (simp add: Let_def BIT_defs bit_simps)
       apply (simp add: replay_def Let_def BIT_defs bit_simps and_bit_u8 bit_0x100)
      apply (simp add: replay_def Let_def BIT_defs bit_simps)
     apply simp
    apply simp
   apply simp
  apply (simp add: replay_def)
  done

text \<open>
  On the seven other bit-banging backends, from every entry state and against any hardware,
  \<^verbatim>\<open>spi_transfer9(0x1C3)\<close> is a first phase that ends in a state \<open>s1\<close>, followed by
  \<^verbatim>\<open>spi_transfer(0xC3)\<close> from \<open>s1\<close>; the phase is there whether or not the hardware ever
  completes the 8-bit exchange, and it consumes one hardware read, the read of the port. What
  the phase puts on the lines is, in order: observations in
  which neither line is high (the lines are brought low); data-out high while the clock is
  low; the clock high, data-out still high; the read of the data-in pin, whose level becomes
  bit 8 of the result; the clock low again; and again only observations in which neither line
  is high (the pins are handed back). When the call returns, the one further observation is
  the byte \<open>0xC3\<close> handed to the transmit buffer. The F5529 USCI_A variant has data-out and
  clock on two ports and lowers them with two writes: there the entry state must not hold both
  lines high by hand.
\<close>

theorem transfer9_single_clock_pulse:
  assumes "bitbang b" and "b \<noteq> USCI_B"
    and "b = F5_USCI_A_F5529 \<Longrightarrow>
         \<not> (line_level b (regs s) (dout_pin b) = High \<and> line_level b (regs s) (clk_pin b) = High)"
  shows "\<exists>evs pre post lvl s1.
     trace s1 = trace s @ evs \<and> regs s1 = replay evs (regs s) \<and>
     rd_count s1 = Suc (rd_count s) \<and>
     wire_trace b (regs s) evs =
       pre @ [Lines High Low, Lines High High, Sample lvl, Lines High Low] @ post \<and>
     list_all quiet pre \<and> list_all quiet post \<and>
     spi_transfer9 b env 0x1C3 s =
       (case spi_transfer b env 0xC3 s1 of
          None \<Rightarrow> None
        | Some (rb, s') \<Rightarrow> Some ((if lvl then 0x0100 else 0) OR ucast rb, s')) \<and>
     (\<forall>r s'. spi_transfer9 b env 0x1C3 s = Some (r, s') \<longrightarrow>
        wire_trace b (regs s) (new_events s s') =
          pre @ [Lines High Low, Lines High High, Sample lvl, Lines High Low] @ post @
          [HwTransfer 0xC3])"
proof (cases b)
  case USI
  with assms show ?thesis by (simp add: bitbang_def)
next
  case USCI_A
  with assms show ?thesis using pulse_USCI_A [of s env] by simp
next
  case USCI_B
  with assms show ?thesis by simp
next
  case USCI_A_TB3
  with assms show ?thesis using pulse_USCI_A_TB3 [of s env] by simp
next
  case USCI_B_TB3
  with assms show ?thesis using pulse_USCI_B_TB3 [of s env] by simp
next
  case F5_USCI_A_F5172
  with assms show ?thesis using pulse_F5_USCI_A_F5172 [of s env] by simp
next
  case F5_USCI_A_F5529
  with assms show ?thesis using pulse_F5_USCI_A_F5529 [of s env] by simp
next
  case F5_USCI_B_F5172
  with assms show ?thesis using pulse_F5_USCI_B_F5172 [of s env] by simp
next
  case F5_USCI_B_F5529
  with assms show ?thesis using pulse_F5_USCI_B_F5529 [of s env] by simp
qed

theorem transfer9_single_clock_pulse_witness:
  "\<exists>pre post lvl r s'.
     spi_transfer9 F5_USCI_A_F5529 (env_const 0xFF) 0x1C3 (spi_init F5_USCI_A_F5529 reset_state) =
       Some (r, s') \<and>
     wire_trace F5_USCI_A_F5529 (regs (spi_init F5_USCI_A_F5529 reset_state))
       (new_events (spi_init F5_USCI_A_F5529 reset_state) s') =
       pre @ [Lines High Low, Lines High High, Sample lvl, Lines High Low] @ post @
       [HwTransfer 0xC3] \<and>
     list_all quiet pre \<and> list_all quiet post"
proof -
  have b: "bitbang F5_USCI_A_F5529"
    by (simp add: bitbang_def)
  have lv: "\<not> (line_level F5_USCI_A_F5529 (regs (spi_init F5_USCI_A_F5529 reset_state))
                (dout_pin F5_USCI_A_F5529) = High \<and>
              line_level F5_USCI_A_F5529 (regs (spi_init F5_USCI_A_F5529 reset_state))
                (clk_pin F5_USCI_A_F5529) = High)"
    by (simp add: init_defs reset_state_def stmt_defs Let_def BIT_defs)
  obtain r s' where run:
    "spi_transfer9 F5_USCI_A_F5529 (env_const 0xFF) 0x1C3 (spi_init F5_USCI_A_F5529 reset_state) =
       Some (r, s')"
    using transfer9_returns [OF b completes_env_const] by blast
  show ?thesis
    using transfer9_single_clock_pulse [OF b _ lv, of "env_const 0xFF"] run by auto
qed

section \<open>The 16-bit transfer\<close>

lemma usci_transfer16_eq:
  "usci_transfer16 tx ifg m rx bo env v s =
     (case usci_transfer tx ifg m rx env (byte_at bo v 1) s of
        None \<Rightarrow> None
      | Some (r1, s3) \<Rightarrow>
          (case usci_transfer tx ifg m rx env (byte_at bo v 0) s3 of
             None \<Rightarrow> None
           | Some (r0, s6) \<Rightarrow> Some (word_of_bytes bo r0 r1, s6)))"
  by (simp add: usci_transfer16_def usci_transfer_def Let_def split: option.splits prod.splits)

lemma and_0xFF: "(v :: u16) AND 0xFF = take_bit 8 v"
  using take_bit_eq_mask [of 8 v] by (simp add: mask_eq_exp_minus_1)

lemma ucast_low_byte: "(ucast ((v :: u16) AND 0xFF) :: u8) = ucast v"
  unfolding and_0xFF by (rule bit_eqI) (auto simp add: bit_simps dest: bit_imp_le_length)

lemmas spi_transfer16_defs = spi_transfer16_USCI_A_def spi_transfer16_USCI_B_def
  spi_transfer16_F5_USCI_A_def spi_transfer16_F5_USCI_B_def

text \<open>
  Claim C3, amended. On every USCI backend, on a little-endian host, \<^verbatim>\<open>spi_transfer16(v)\<close> is
  two \<^verbatim>\<open>spi_transfer\<close> calls, high byte first, the first received byte becoming the high byte
  of the result: same register accesses in the same order, same final state, same value, and
  the same non-termination.
\<close>

theorem transfer16_is_two_transfer8:
  assumes "b \<noteq> USI"
  shows "spi_transfer16 b LittleEndian env v s = transfer16_by_bytes b env v s"
  using assms
  by (cases b)
    (simp_all add: spi_transfer16_defs spi_transfer_defs usci_transfer16_eq transfer16_by_bytes_def
      byte_at_def word_of_bytes_def ucast_low_byte split: option.splits)

theorem transfer16_is_two_transfer8_witness:
  "spi_transfer16 USCI_A LittleEndian (env_const 0xFF) 0x1234 reset_state =
     transfer16_by_bytes USCI_A (env_const 0xFF) 0x1234 reset_state \<and>
   map_option (\<lambda>(r, s'). (r, writes_to UCA0TXBUF (trace s')))
     (transfer16_by_bytes USCI_A (env_const 0xFF) 0x1234 reset_state) = Some (0xFFFF, [0x12, 0x34])"
  using transfer16_is_two_transfer8 [of USCI_A "env_const 0xFF" "0x1234" reset_state]
  by (simp add: transfer16_by_bytes_def spi_transfer_defs usci_transfer_now flag_at_def
      env_const_def reset_state_def stmt_defs Let_def flag_defs)

text \<open>
  The USI section is different by design: \<^verbatim>\<open>spi_transfer16\<close> loads the 16-bit shift register
  once and starts one 16-bit exchange (\<^verbatim>\<open>USICNT = 16 | USI16B\<close>), where two \<^verbatim>\<open>spi_transfer\<close> calls
  load the low byte twice and start two 8-bit exchanges.
\<close>

theorem usi_transfer16_is_one_exchange:
  "map_option (\<lambda>(r, s'). (writes_to USISRL (trace s'), writes_to USICNT (trace s')))
     (spi_transfer16 USI LittleEndian (env_const 0) 0x1234 reset_state) = Some ([0x34], [0x50]) \<and>
   map_option (\<lambda>(r, s'). (writes_to USISRL (trace s'), writes_to USICNT (trace s')))
     (transfer16_by_bytes USI (env_const 0) 0x1234 reset_state) = Some ([0x12, 0x34], [0x08, 0x08])"
  by (simp add: spi_transfer16_USI_def transfer16_by_bytes_def spi_transfer_USI_def poll_until_now
      flag_at_def env_const_def reset_state_def Let_def stmt_defs wr_USISR_def rd_USISR_def
      USIIE_def USI16B_def)

theorem usi_transfer16_differs:
  "spi_transfer16 USI LittleEndian (env_const 0) 0x1234 reset_state \<noteq>
   transfer16_by_bytes USI (env_const 0) 0x1234 reset_state"
proof
  assume "spi_transfer16 USI LittleEndian (env_const 0) 0x1234 reset_state =
          transfer16_by_bytes USI (env_const 0) 0x1234 reset_state"
  then have "map_option (\<lambda>(r, s'). (writes_to USISRL (trace s'), writes_to USICNT (trace s')))
               (spi_transfer16 USI LittleEndian (env_const 0) 0x1234 reset_state) =
             map_option (\<lambda>(r, s'). (writes_to USISRL (trace s'), writes_to USICNT (trace s')))
               (transfer16_by_bytes USI (env_const 0) 0x1234 reset_state)"
    by simp
  then show False
    using usi_transfer16_is_one_exchange by auto
qed

lemma writes_to_polls: "writes_to q (map (\<lambda>k. Rd r (f k)) ks) = []"
  by (induction ks) simp_all

text \<open>
  For every value \<open>v\<close>, a \<^verbatim>\<open>spi_transfer16\<close> of the USI that returns has loaded each half of the
  shift register once, with the two bytes of \<open>v\<close>, and has started one exchange of 16 bits.
\<close>

lemma usi_transfer16_writes:
  assumes "spi_transfer16 USI bo env v s = Some (r, s')"
  shows "writes_to USISRL (new_events s s') = [ucast v] \<and>
         writes_to USISRH (new_events s s') = [ucast (drop_bit 8 v)] \<and>
         writes_to USICNT (new_events s s') = [16 OR USI16B]"
  using assms
  by (auto simp add: spi_transfer16_USI_def poll_until_eq Let_def rd_USISR_def wr_USISR_def
      stmt_defs polled_trace polled_regs new_events_def writes_to_append writes_to_polls
      split: if_splits simp del: polled.simps upt_Suc)

lemma usci_transfer16_writes:
  assumes "usci_transfer16 tx ifg m rx bo env v s = Some (r, s')"
  shows "writes_to tx (new_events s s') = [byte_at bo v 1, byte_at bo v 0]"
proof -
  from assms obtain r1 s1 r0 where
    a: "usci_transfer tx ifg m rx env (byte_at bo v 1) s = Some (r1, s1)" and
    b: "usci_transfer tx ifg m rx env (byte_at bo v 0) s1 = Some (r0, s')"
    by (auto simp add: usci_transfer16_eq split: option.splits)
  from usci_transfer_shape [OF a] obtain evs1 where
    t1: "trace s1 = trace s @ Wr tx (byte_at bo v 1) # evs1" and r1: "list_all (is_rd_of [ifg, rx]) evs1"
    by auto
  from usci_transfer_shape [OF b] obtain evs0 where
    t0: "trace s' = trace s1 @ Wr tx (byte_at bo v 0) # evs0" and r0: "list_all (is_rd_of [ifg, rx]) evs0"
    by auto
  show ?thesis
    using r0 r1 by (simp add: new_events_def t0 t1 writes_to_append writes_to_reads)
qed

text \<open>
  Claim C4, amended. On every USCI backend the two bytes \<^verbatim>\<open>spi_transfer16\<close> writes to the
  transmit buffer are the storage bytes at index 1 and index 0 of \<open>v\<close>: the high byte then the
  low byte on a little-endian host (the MSP430), the low byte then the high byte on a
  big-endian one.
\<close>

theorem transfer16_byte_order:
  assumes "b \<noteq> USI" and "spi_transfer16 b bo env v s = Some (r, s')"
  shows "writes_to (txbuf b) (new_events s s') =
           (case bo of
              LittleEndian \<Rightarrow> [ucast (drop_bit 8 v), ucast (v AND 0xFF)]
            | BigEndian \<Rightarrow> [ucast (v AND 0xFF), ucast (drop_bit 8 v)])"
  using assms
  by (cases b; cases bo)
    (auto simp add: spi_transfer16_defs byte_at_def ucast_low_byte dest!: usci_transfer16_writes)

theorem transfer16_byte_order_witness:
  "\<exists>r s'. spi_transfer16 USCI_B LittleEndian (env_const 0xFF) 0xBEEF reset_state = Some (r, s') \<and>
     writes_to UCB0TXBUF (new_events reset_state s') = [0xBE, 0xEF]"
proof -
  have "\<exists>r s'. spi_transfer16 USCI_B LittleEndian (env_const 0xFF) 0xBEEF reset_state = Some (r, s')"
    by (simp add: spi_transfer16_defs usci_transfer16_eq usci_transfer_now flag_at_def
      env_const_def reset_state_def stmt_defs Let_def flag_defs byte_at_def)
  then obtain r s' where
    run: "spi_transfer16 USCI_B LittleEndian (env_const 0xFF) 0xBEEF reset_state = Some (r, s')"
    by blast
  show ?thesis
    using transfer16_byte_order [OF _ run] run by simp
qed

text \<open>
  On a big-endian host \<^verbatim>\<open>spi_transfer16(0x1234)\<close> would write \<open>0x34\<close> first, not \<open>0x12\<close>: the
  source says so itself (lines 79 to 82).
\<close>

theorem transfer16_big_endian_low_byte_first:
  "map_option (\<lambda>(r, s'). writes_to UCA0TXBUF (new_events reset_state s'))
     (spi_transfer16 USCI_A BigEndian (env_const 0xFF) 0x1234 reset_state) = Some [0x34, 0x12] \<and>
   (ucast (drop_bit 8 (0x1234 :: u16)) :: u8) = 0x12"
  by (simp add: spi_transfer16_defs usci_transfer16_eq usci_transfer_now flag_at_def new_events_def
      env_const_def reset_state_def stmt_defs Let_def flag_defs byte_at_def)

section \<open>Loopback\<close>

text \<open>
  Claim C2, evaluated on the USCI_B backend of the F2xxx and G2xx3 under loopback wiring
  (data-in P1.6 follows data-out P1.7, the receive buffer echoes the transmit buffer):
  \<^verbatim>\<open>spi_transfer9(0x100)\<close> returns \<open>0\<close>, because line 214 tests \<^verbatim>\<open>P1IN & BIT4\<close>, a pin the function
  never configures, where the data-in pin is \<^verbatim>\<open>BIT6\<close>.
\<close>

theorem usci_b_samples_wrong_pin:
  "loopback USCI_B (env_wired USCI_B) \<and> completes USCI_B (env_wired USCI_B) \<and>
   map_option fst (spi_transfer9 USCI_B (env_wired USCI_B) 0x100 reset_state) = Some 0"
  by (simp add: loopback_def pin_loopback_def completes_def env_wired_def flag_defs
      spi_transfer9_USCI_B_def spi_transfer_defs usci_transfer_now flag_at_def reset_state_def
      stmt_defs Let_def BIT_defs bit_simps)

lemma loopback_pin:
  assumes "loopback b env" and "gpio_pin b rf (dout_pin b)"
    and "bit (rf (PxDIR (fst (dout_pin b)))) (snd (dout_pin b))"
  shows "bit (env n rf (PxIN (fst (din_pin b)))) (snd (din_pin b)) =
         bit (rf (PxOUT (fst (dout_pin b)))) (snd (dout_pin b))"
  using assms by (auto simp add: loopback_def pin_loopback_def)

lemma le_0x1FF_bits:
  fixes v :: u16
  assumes "v \<le> 0x1FF" and "9 \<le> n"
  shows "\<not> bit v n"
proof -
  have "unat v < 2 ^ 9"
    using assms(1) by (simp add: word_le_nat_alt)
  also have "(2 :: nat) ^ 9 \<le> 2 ^ n"
    using assms(2) by (intro power_increasing) simp_all
  finally have "unat v div 2 ^ n = 0"
    by simp
  then have "\<not> bit (unat v) n"
    by (simp add: bit_iff_odd)
  then show ?thesis
    by (simp add: bit_simps)
qed

lemma bit8_iff: "((v :: u16) AND 0x0100 = 0) = (\<not> bit v 8)"
  using and_exp_eq_0_iff_not_bit [of v 8] by simp

lemma low_byte_bits: "bit (ucast (ucast ((v :: u16) AND 0xFF) :: u8) :: u16) n = (n < 8 \<and> bit v n)"
  unfolding and_0xFF by (auto simp add: bit_simps dest: bit_imp_le_length)

lemma nine_bits_set:
  fixes v :: u16
  assumes "v \<le> 0x1FF" and "v AND 0x0100 \<noteq> 0"
  shows "0x0100 OR ucast (ucast (v AND 0xFF) :: u8) = v"
proof (rule bit_eqI)
  fix n
  have "bit v 8"
    using assms(2) by (simp add: bit8_iff)
  moreover have "9 \<le> n \<Longrightarrow> \<not> bit v n"
    using assms(1) by (rule le_0x1FF_bits)
  ultimately show "bit (0x0100 OR ucast (ucast (v AND 0xFF) :: u8) :: u16) n = bit v n"
    using bit_0x100 [of n] by (cases "n < 8"; cases "n = 8") (auto simp add: bit_or_iff low_byte_bits)
qed

lemma nine_bits_clear:
  fixes v :: u16
  assumes "v \<le> 0x1FF" and "v AND 0x0100 = 0"
  shows "ucast (ucast (v AND 0xFF) :: u8) = v"
proof (rule bit_eqI)
  fix n
  have "\<not> bit v 8"
    using assms(2) by (simp add: bit8_iff)
  moreover have "9 \<le> n \<Longrightarrow> \<not> bit v n"
    using assms(1) by (rule le_0x1FF_bits)
  ultimately show "bit (ucast (ucast (v AND 0xFF) :: u8) :: u16) n = bit v n"
    by (cases "n < 8"; cases "n = 8") (auto simp add: low_byte_bits)
qed

lemma echo_USCI_A:
  assumes "loopback USCI_A env" and "inw \<le> 0x1FF" and "spi_transfer9_USCI_A env inw s = Some (r, s')"
  shows "r = inw"
  using assms
  apply (cases s; cases "inw AND 0x0100 = 0"; hypsubst)
  unfolding spi_transfer9_USCI_A_def spi_transfer_USCI_A_def Let_def
   apply (simp_all only: exec_simps)
   apply (drule transfer9_tail_echo, (simp add: loopback_def; fail),
      clarsimp simp add: BIT_defs and_bit_u8 bit_simps loopback_pin [where b = USCI_A, simplified]
        nine_bits_set nine_bits_clear)+
  done

lemma echo_USCI_A_TB3:
  assumes "loopback USCI_A_TB3 env" and "inw \<le> 0x1FF" and "spi_transfer9_USCI_A_TB3 env inw s = Some (r, s')"
  shows "r = inw"
  using assms
  apply (cases s; cases "inw AND 0x0100 = 0"; hypsubst)
  unfolding spi_transfer9_USCI_A_TB3_def spi_transfer_USCI_A_def Let_def
   apply (simp_all only: exec_simps)
   apply (drule transfer9_tail_echo, (simp add: loopback_def; fail),
      clarsimp simp add: BIT_defs and_bit_u8 bit_simps loopback_pin [where b = USCI_A_TB3, simplified]
        nine_bits_set nine_bits_clear)+
  done

lemma echo_USCI_B_TB3:
  assumes "loopback USCI_B_TB3 env" and "inw \<le> 0x1FF" and "spi_transfer9_USCI_B_TB3 env inw s = Some (r, s')"
  shows "r = inw"
  using assms
  apply (cases s; cases "inw AND 0x0100 = 0"; hypsubst)
  unfolding spi_transfer9_USCI_B_TB3_def spi_transfer_USCI_B_def Let_def
   apply (simp_all only: exec_simps)
   apply (drule transfer9_tail_echo, (simp add: loopback_def; fail),
      clarsimp simp add: BIT_defs and_bit_u8 bit_simps loopback_pin [where b = USCI_B_TB3, simplified]
        nine_bits_set nine_bits_clear)+
  done

lemma echo_F5_USCI_A_F5172:
  assumes "loopback F5_USCI_A_F5172 env" and "inw \<le> 0x1FF" and "spi_transfer9_F5_USCI_A_F5172 env inw s = Some (r, s')"
  shows "r = inw"
  using assms
  apply (cases s; cases "inw AND 0x0100 = 0"; hypsubst)
  unfolding spi_transfer9_F5_USCI_A_F5172_def spi_transfer_F5_USCI_A_def Let_def
   apply (simp_all only: exec_simps)
   apply (drule transfer9_tail_echo, (simp add: loopback_def; fail),
      clarsimp simp add: BIT_defs and_bit_u8 bit_simps loopback_pin [where b = F5_USCI_A_F5172, simplified]
        nine_bits_set nine_bits_clear)+
  done

lemma echo_F5_USCI_A_F5529:
  assumes "loopback F5_USCI_A_F5529 env" and "inw \<le> 0x1FF" and "spi_transfer9_F5_USCI_A_F5529 env inw s = Some (r, s')"
  shows "r = inw"
  using assms
  apply (cases s; cases "inw AND 0x0100 = 0"; hypsubst)
  unfolding spi_transfer9_F5_USCI_A_F5529_def spi_transfer_F5_USCI_A_def Let_def
   apply (simp_all only: exec_simps)
   apply (drule transfer9_tail_echo, (simp add: loopback_def; fail),
      clarsimp simp add: BIT_defs and_bit_u8 bit_simps loopback_pin [where b = F5_USCI_A_F5529, simplified]
        nine_bits_set nine_bits_clear)+
  done

lemma echo_F5_USCI_B_F5172:
  assumes "loopback F5_USCI_B_F5172 env" and "inw \<le> 0x1FF" and "spi_transfer9_F5_USCI_B_F5172 env inw s = Some (r, s')"
  shows "r = inw"
  using assms
  apply (cases s; cases "inw AND 0x0100 = 0"; hypsubst)
  unfolding spi_transfer9_F5_USCI_B_F5172_def spi_transfer_F5_USCI_B_def Let_def
   apply (simp_all only: exec_simps)
   apply (drule transfer9_tail_echo, (simp add: loopback_def; fail),
      clarsimp simp add: BIT_defs and_bit_u8 bit_simps loopback_pin [where b = F5_USCI_B_F5172, simplified]
        nine_bits_set nine_bits_clear)+
  done

lemma echo_F5_USCI_B_F5529:
  assumes "loopback F5_USCI_B_F5529 env" and "inw \<le> 0x1FF" and "spi_transfer9_F5_USCI_B_F5529 env inw s = Some (r, s')"
  shows "r = inw"
  using assms
  apply (cases s; cases "inw AND 0x0100 = 0"; hypsubst)
  unfolding spi_transfer9_F5_USCI_B_F5529_def spi_transfer_F5_USCI_B_def Let_def
   apply (simp_all only: exec_simps)
   apply (drule transfer9_tail_echo, (simp add: loopback_def; fail),
      clarsimp simp add: BIT_defs and_bit_u8 bit_simps loopback_pin [where b = F5_USCI_B_F5529, simplified]
        nine_bits_set nine_bits_clear)+
  done

lemma wired_is_loopback: "bitbang b \<Longrightarrow> loopback b (env_wired b) \<and> completes b (env_wired b)"
  by (cases b)
    (simp_all add: bitbang_def loopback_def pin_loopback_def completes_def env_wired_def flag_defs
      bit_simps)

text \<open>
  On the seven other bit-banging backends, under loopback wiring and with hardware that
  completes every exchange, \<^verbatim>\<open>spi_transfer9(v)\<close> returns, and returns \<open>v\<close>, for every
  \<open>v \<le> 0x1FF\<close>.
\<close>

theorem transfer9_loopback_echo:
  assumes "bitbang b" and "b \<noteq> USCI_B" and "loopback b env" and "completes b env"
    and "v \<le> 0x1FF"
  shows "\<exists>s'. spi_transfer9 b env v s = Some (v, s')"
proof -
  obtain r s' where run: "spi_transfer9 b env v s = Some (r, s')"
    using transfer9_returns [OF assms(1) assms(4)] by blast
  have "r = v"
  proof (cases b)
    case USI
    with assms show ?thesis by (simp add: bitbang_def)
  next
    case USCI_A
    with assms run show ?thesis using echo_USCI_A [of env v s r s'] by (simp)
  next
    case USCI_B
    with assms show ?thesis by simp
  next
    case USCI_A_TB3
    with assms run show ?thesis using echo_USCI_A_TB3 [of env v s r s'] by (simp)
  next
    case USCI_B_TB3
    with assms run show ?thesis using echo_USCI_B_TB3 [of env v s r s'] by (simp)
  next
    case F5_USCI_A_F5172
    with assms run show ?thesis using echo_F5_USCI_A_F5172 [of env v s r s'] by (simp)
  next
    case F5_USCI_A_F5529
    with assms run show ?thesis using echo_F5_USCI_A_F5529 [of env v s r s'] by (simp)
  next
    case F5_USCI_B_F5172
    with assms run show ?thesis using echo_F5_USCI_B_F5172 [of env v s r s'] by (simp)
  next
    case F5_USCI_B_F5529
    with assms run show ?thesis using echo_F5_USCI_B_F5529 [of env v s r s'] by (simp)
  qed
  with run show ?thesis by blast
qed

theorem transfer9_loopback_echo_witness:
  "\<exists>s'. spi_transfer9 USCI_A (env_wired USCI_A) 0x1C3 reset_state = Some (0x1C3, s')"
proof -
  have b: "bitbang USCI_A"
    by (simp add: bitbang_def)
  show ?thesis
    using transfer9_loopback_echo [OF b _ conjunct1 [OF wired_is_loopback [OF b]]
        conjunct2 [OF wired_is_loopback [OF b]], of "0x1C3" reset_state]
    by simp
qed

section \<open>The frame of the bit-banging phase\<close>

text \<open>
  Claim C9, evaluated on the \<^verbatim>\<open>spi_transfer9\<close> written for USCI_A of the F5529, entered with
  every pin of port 3 an input: line 464 computes \<^verbatim>\<open>(P3DIR | ~(BIT3 | BIT4)) | BIT3\<close> and writes
  \<open>0xEF\<close> to \<^verbatim>\<open>P3DIR\<close>, turning the six other pins of the port into outputs until the restore.
\<close>

theorem f5529_usci_a_direction_slip:
  "map_option (\<lambda>(r, s'). writes_to P3DIR (new_events reset_state s'))
     (spi_transfer9 F5_USCI_A_F5529 (env_const 0xFF) 0 reset_state) = Some [0xEF, 0x00] \<and>
   map_option (\<lambda>(r, s'). list_all (keeps_frame F5_USCI_A_F5529 (regs reset_state))
       (new_events reset_state s'))
     (spi_transfer9 F5_USCI_A_F5529 (env_const 0xFF) 0 reset_state) = Some False \<and>
   pin_mask F5_USCI_A_F5529 Port3 = 0x18"
  by (simp add: spi_transfer9_F5_USCI_A_F5529_def spi_transfer_defs usci_transfer_now flag_at_def
      new_events_def env_const_def reset_state_def stmt_defs Let_def flag_defs BIT_defs
      pin_mask_def spi_pins_def)

lemma u8_eq_iff:
  fixes a b :: u8
  shows "(a = b) =
    (bit a 0 = bit b 0 \<and> bit a 1 = bit b 1 \<and> bit a 2 = bit b 2 \<and> bit a 3 = bit b 3 \<and>
     bit a 4 = bit b 4 \<and> bit a 5 = bit b 5 \<and> bit a 6 = bit b 6 \<and> bit a 7 = bit b 7)"
proof
  assume "a = b"
  then show "bit a 0 = bit b 0 \<and> bit a 1 = bit b 1 \<and> bit a 2 = bit b 2 \<and> bit a 3 = bit b 3 \<and>
     bit a 4 = bit b 4 \<and> bit a 5 = bit b 5 \<and> bit a 6 = bit b 6 \<and> bit a 7 = bit b 7"
    by simp
next
  assume h: "bit a 0 = bit b 0 \<and> bit a 1 = bit b 1 \<and> bit a 2 = bit b 2 \<and> bit a 3 = bit b 3 \<and>
     bit a 4 = bit b 4 \<and> bit a 5 = bit b 5 \<and> bit a 6 = bit b 6 \<and> bit a 7 = bit b 7"
  show "a = b"
  proof (rule bit_eqI)
    fix n :: nat
    consider "n = 0" | "n = 1" | "n = 2" | "n = 3" | "n = 4" | "n = 5" | "n = 6" | "n = 7" | "8 \<le> n"
      by linarith
    then show "bit a n = bit b n"
    proof cases
      case 9
      then have "\<not> bit a n" "\<not> bit b n"
        by (auto dest: bit_imp_le_length)
      then show ?thesis by simp
    qed (use h in simp_all)
  qed
qed

lemma reads_keep_frame: "list_all (is_rd_of rs) evs \<Longrightarrow> list_all (keeps_frame b rf0) evs"
proof (induction evs)
  case Nil
  show ?case by simp
next
  case (Cons e evs)
  then show ?case by (cases e) simp_all
qed

lemma frame_USCI_A:
  assumes "spi_transfer9_USCI_A env inw s = Some (r, s')"
  shows "list_all (keeps_frame USCI_A (regs s)) (new_events s s')"
  using assms
  apply (cases s; cases "inw AND 0x0100 = 0"; hypsubst)
  unfolding spi_transfer9_USCI_A_def spi_transfer_USCI_A_def Let_def
   apply (simp_all only: exec_simps)
   apply (drule transfer9_tail; clarsimp simp add: new_events_def reads_keep_frame pin_mask_def
      spi_pins_def u8_eq_iff bit_simps BIT_defs)+
  done

lemma frame_USCI_B:
  assumes "spi_transfer9_USCI_B env inw s = Some (r, s')"
  shows "list_all (keeps_frame USCI_B (regs s)) (new_events s s')"
  using assms
  apply (cases s; cases "inw AND 0x0100 = 0"; hypsubst)
  unfolding spi_transfer9_USCI_B_def spi_transfer_USCI_B_def Let_def
   apply (simp_all only: exec_simps)
   apply (drule transfer9_tail; clarsimp simp add: new_events_def reads_keep_frame pin_mask_def
      spi_pins_def u8_eq_iff bit_simps BIT_defs)+
  done

lemma frame_USCI_A_TB3:
  assumes "spi_transfer9_USCI_A_TB3 env inw s = Some (r, s')"
  shows "list_all (keeps_frame USCI_A_TB3 (regs s)) (new_events s s')"
  using assms
  apply (cases s; cases "inw AND 0x0100 = 0"; hypsubst)
  unfolding spi_transfer9_USCI_A_TB3_def spi_transfer_USCI_A_def Let_def
   apply (simp_all only: exec_simps)
   apply (drule transfer9_tail; clarsimp simp add: new_events_def reads_keep_frame pin_mask_def
      spi_pins_def u8_eq_iff bit_simps BIT_defs)+
  done

lemma frame_USCI_B_TB3:
  assumes "spi_transfer9_USCI_B_TB3 env inw s = Some (r, s')"
  shows "list_all (keeps_frame USCI_B_TB3 (regs s)) (new_events s s')"
  using assms
  apply (cases s; cases "inw AND 0x0100 = 0"; hypsubst)
  unfolding spi_transfer9_USCI_B_TB3_def spi_transfer_USCI_B_def Let_def
   apply (simp_all only: exec_simps)
   apply (drule transfer9_tail; clarsimp simp add: new_events_def reads_keep_frame pin_mask_def
      spi_pins_def u8_eq_iff bit_simps BIT_defs)+
  done

lemma frame_F5_USCI_A_F5172:
  assumes "spi_transfer9_F5_USCI_A_F5172 env inw s = Some (r, s')"
  shows "list_all (keeps_frame F5_USCI_A_F5172 (regs s)) (new_events s s')"
  using assms
  apply (cases s; cases "inw AND 0x0100 = 0"; hypsubst)
  unfolding spi_transfer9_F5_USCI_A_F5172_def spi_transfer_F5_USCI_A_def Let_def
   apply (simp_all only: exec_simps)
   apply (drule transfer9_tail; clarsimp simp add: new_events_def reads_keep_frame pin_mask_def
      spi_pins_def u8_eq_iff bit_simps BIT_defs)+
  done

lemma frame_F5_USCI_B_F5172:
  assumes "spi_transfer9_F5_USCI_B_F5172 env inw s = Some (r, s')"
  shows "list_all (keeps_frame F5_USCI_B_F5172 (regs s)) (new_events s s')"
  using assms
  apply (cases s; cases "inw AND 0x0100 = 0"; hypsubst)
  unfolding spi_transfer9_F5_USCI_B_F5172_def spi_transfer_F5_USCI_B_def Let_def
   apply (simp_all only: exec_simps)
   apply (drule transfer9_tail; clarsimp simp add: new_events_def reads_keep_frame pin_mask_def
      spi_pins_def u8_eq_iff bit_simps BIT_defs)+
  done

lemma frame_F5_USCI_B_F5529:
  assumes "spi_transfer9_F5_USCI_B_F5529 env inw s = Some (r, s')"
  shows "list_all (keeps_frame F5_USCI_B_F5529 (regs s)) (new_events s s')"
  using assms
  apply (cases s; cases "inw AND 0x0100 = 0"; hypsubst)
  unfolding spi_transfer9_F5_USCI_B_F5529_def spi_transfer_F5_USCI_B_def Let_def
   apply (simp_all only: exec_simps)
   apply (drule transfer9_tail; clarsimp simp add: new_events_def reads_keep_frame pin_mask_def
      spi_pins_def u8_eq_iff bit_simps BIT_defs)+
  done

text \<open>
  On the seven other bit-banging backends every write of \<^verbatim>\<open>spi_transfer9\<close> to a port register
  leaves the bits outside the three pins as they were on entry, and the only other register
  written is the transmit buffer.
\<close>

theorem transfer9_keeps_other_pins:
  assumes "bitbang b" and "b \<noteq> F5_USCI_A_F5529" and "spi_transfer9 b env inw s = Some (r, s')"
  shows "list_all (keeps_frame b (regs s)) (new_events s s')"
proof (cases b)
  case USI
  with assms show ?thesis by (simp add: bitbang_def)
next
  case USCI_A
  with assms show ?thesis using frame_USCI_A [of env inw s r s'] by (simp)
next
  case USCI_B
  with assms show ?thesis using frame_USCI_B [of env inw s r s'] by (simp)
next
  case USCI_A_TB3
  with assms show ?thesis using frame_USCI_A_TB3 [of env inw s r s'] by (simp)
next
  case USCI_B_TB3
  with assms show ?thesis using frame_USCI_B_TB3 [of env inw s r s'] by (simp)
next
  case F5_USCI_A_F5172
  with assms show ?thesis using frame_F5_USCI_A_F5172 [of env inw s r s'] by (simp)
next
  case F5_USCI_A_F5529
  with assms show ?thesis by simp
next
  case F5_USCI_B_F5172
  with assms show ?thesis using frame_F5_USCI_B_F5172 [of env inw s r s'] by (simp)
next
  case F5_USCI_B_F5529
  with assms show ?thesis using frame_F5_USCI_B_F5529 [of env inw s r s'] by (simp)
qed

theorem transfer9_keeps_other_pins_witness:
  "\<exists>r s'. spi_transfer9 USCI_B_TB3 (env_const 0xFF) 0x1C3 reset_state = Some (r, s') \<and>
     list_all (keeps_frame USCI_B_TB3 (regs reset_state)) (new_events reset_state s')"
proof -
  have b: "bitbang USCI_B_TB3"
    by (simp add: bitbang_def)
  obtain r s' where run: "spi_transfer9 USCI_B_TB3 (env_const 0xFF) 0x1C3 reset_state = Some (r, s')"
    using transfer9_returns [OF b completes_env_const] by blast
  show ?thesis
    using transfer9_keeps_other_pins [OF b _ run] run by simp
qed

end
